theory Spec2Isabelle
  imports Main "HOL-Library.Word" "HOL-Library.Monad_Syntax"
begin

unbundle bit_operations_syntax

section \<open>Interrupt mask controller (sparc/Os\_Internal\_Arch.c)\<close>

type_synonym u32 = "32 word"
type_synonym u8 = "8 word"

text \<open>
  The three mask variables and the handler table are the file's globals. The interrupt
  controller is only written, never read, by this file: every \<open>grRegisterWrite\<close> is
  recorded, newest first, as the register written and the value.
\<close>

datatype irqmp_register = IRQMP_INTERRUPT_CLEAR_REGISTER | IRQMP_MP_INTERRUPT_MASK_REGISTER nat

record irq_state =
  sparcISR1HandlersMask :: u32
  sparcISR2HandlersMask :: u32
  sparcCurrentInterruptMask :: u32
  sparcIRQHandlersTable :: "u32 list"
  irqmp_writes :: "(irqmp_register \<times> u32) list"

text \<open>The initial values of the definitions in the C file; the table has 15 entries.\<close>

definition irq_initial :: irq_state where
  "irq_initial =
     \<lparr> sparcISR1HandlersMask = 0, sparcISR2HandlersMask = 0, sparcCurrentInterruptMask = 0,
       sparcIRQHandlersTable = replicate 15 0, irqmp_writes = [] \<rparr>"

datatype c_error = IndexOutOfBounds

definition grRegisterWrite :: "irqmp_register \<Rightarrow> u32 \<Rightarrow> irq_state \<Rightarrow> irq_state" where
  "grRegisterWrite r v s = s\<lparr>irqmp_writes := (r, v) # irqmp_writes s\<rparr>"

text \<open>
  \<open>sparcIRQHandlersTable[irq - 1] = newHandler\<close>. C does not check the index; the model
  makes the access outside the array a result of its own. \<open>irq\<close> is an unsigned 32-bit
  number, so \<open>irq - 1\<close> wraps to \<open>0xFFFFFFFF\<close> at \<open>irq = 0\<close>.
\<close>

definition table_store :: "u32 \<Rightarrow> u32 \<Rightarrow> irq_state \<Rightarrow> c_error + irq_state" where
  "table_store idx v s =
     (if unat idx < length (sparcIRQHandlersTable s)
      then Inr (s\<lparr>sparcIRQHandlersTable := (sparcIRQHandlersTable s)[unat idx := v]\<rparr>)
      else Inl IndexOutOfBounds)"

text \<open>
  \<open>1 << irq\<close> is a 32-bit shift; a count of 32 or more (undefined in C) leaves no bit
  set here. Such a count is outside the table as well.
\<close>

definition sparcRegisterISR1Handler :: "u32 \<Rightarrow> u32 \<Rightarrow> irq_state \<Rightarrow> c_error + irq_state" where
  "sparcRegisterISR1Handler newHandler irq s =
     (let newInterruptMask = push_bit (unat irq) (1 :: u32);
          s1 = grRegisterWrite IRQMP_INTERRUPT_CLEAR_REGISTER newInterruptMask s;
          s2 = s1\<lparr>sparcISR1HandlersMask := sparcISR1HandlersMask s1 OR newInterruptMask\<rparr>
      in table_store (irq - 1) newHandler s2)"

definition sparcRegisterISR2Handler :: "u32 \<Rightarrow> u32 \<Rightarrow> irq_state \<Rightarrow> c_error + irq_state" where
  "sparcRegisterISR2Handler newHandler irq s =
     (let newInterruptMask = push_bit (unat irq) (1 :: u32);
          s1 = grRegisterWrite IRQMP_INTERRUPT_CLEAR_REGISTER newInterruptMask s;
          s2 = s1\<lparr>sparcISR2HandlersMask := sparcISR2HandlersMask s1 OR newInterruptMask\<rparr>
      in table_store (irq - 1) newHandler s2)"

definition sparcEnableAllInterrupts :: "irq_state \<Rightarrow> irq_state" where
  "sparcEnableAllInterrupts s =
     (let s1 = s\<lparr>sparcCurrentInterruptMask :=
                   sparcCurrentInterruptMask s OR (sparcISR1HandlersMask s OR sparcISR2HandlersMask s)\<rparr>
      in grRegisterWrite (IRQMP_MP_INTERRUPT_MASK_REGISTER 0) (sparcCurrentInterruptMask s1) s1)"

definition sparcDisableAllInterrupts :: "irq_state \<Rightarrow> irq_state" where
  "sparcDisableAllInterrupts s =
     (let s1 = s\<lparr>sparcCurrentInterruptMask :=
                   sparcCurrentInterruptMask s AND NOT (sparcISR1HandlersMask s OR sparcISR2HandlersMask s)\<rparr>
      in grRegisterWrite (IRQMP_MP_INTERRUPT_MASK_REGISTER 0) (sparcCurrentInterruptMask s1) s1)"

definition sparcEnableISR2Interrupts :: "irq_state \<Rightarrow> irq_state" where
  "sparcEnableISR2Interrupts s =
     (let s1 = s\<lparr>sparcCurrentInterruptMask := sparcCurrentInterruptMask s OR sparcISR2HandlersMask s\<rparr>
      in grRegisterWrite (IRQMP_MP_INTERRUPT_MASK_REGISTER 0) (sparcCurrentInterruptMask s1) s1)"

definition sparcDisableISR2Interrupts :: "irq_state \<Rightarrow> irq_state" where
  "sparcDisableISR2Interrupts s =
     (let s1 = s\<lparr>sparcCurrentInterruptMask := sparcCurrentInterruptMask s AND NOT (sparcISR2HandlersMask s)\<rparr>
      in grRegisterWrite (IRQMP_MP_INTERRUPT_MASK_REGISTER 0) (sparcCurrentInterruptMask s1) s1)"

section \<open>The processor state of the trap handler (sparc/trapwindowoveflowhandler.s)\<close>

text \<open>
  The routine is SPARC V8 assembly. Its state is the register file (seven globals and, for
  each register window, eight locals and eight ins; the outs of a window are the ins of
  the window below it), the PSR, WIM and Y registers, the byte-addressed big-endian
  memory, and the three word-sized variables the routine reaches by name. The named
  variables are cells of their own: they are C objects apart from the stacks and the
  context records, which live in \<open>mem\<close>. \<open>nwindows\<close> is the number of windows the
  processor implements. \<open>pc\<close> and \<open>npc\<close> are where the interrupted code is, or is
  resumed; the addresses of the routine's own instructions are not part of the state. A SAVE or RESTORE into a window marked in WIM traps; the routine
  executes them with traps disabled, where the processor stops in error mode: the
  instruction has no next state.
  The integer condition codes are bits 23 to 20 of the PSR: \<open>andcc\<close>, \<open>tst\<close> and
  \<open>subcc\<close> write them and the conditional branches read the Z bit.
  Not modelled: alignment traps of memory accesses, the read-only \<open>impl\<close> and \<open>ver\<close>
  fields of the PSR (a write stores the whole word), the EC and EF bits and the
  coprocessors, and the delay cycles of the writes to PSR and WIM, which the routine fills
  with \<open>nop\<close>.
\<close>

datatype reg = G nat | Out nat | L nat | In nat

datatype symbol = system_in_interrupt_context | detected_sparc_register_windows
  | active_thread_context_stack_pointer

record machine =
  globals :: "nat \<Rightarrow> u32"
  win_locals :: "nat \<Rightarrow> nat \<Rightarrow> u32"
  win_ins :: "nat \<Rightarrow> nat \<Rightarrow> u32"
  psr :: u32
  wim :: u32
  yreg :: u32
  mem :: "u32 \<Rightarrow> u8"
  vars :: "symbol \<Rightarrow> u32"
  nwindows :: nat
  pc :: u32
  npc :: u32

abbreviation g0 :: reg where "g0 \<equiv> G 0"
abbreviation g1 :: reg where "g1 \<equiv> G 1"
abbreviation g2 :: reg where "g2 \<equiv> G 2"
abbreviation g3 :: reg where "g3 \<equiv> G 3"
abbreviation g4 :: reg where "g4 \<equiv> G 4"
abbreviation g5 :: reg where "g5 \<equiv> G 5"
abbreviation g6 :: reg where "g6 \<equiv> G 6"
abbreviation g7 :: reg where "g7 \<equiv> G 7"
abbreviation l0 :: reg where "l0 \<equiv> L 0"
abbreviation l1 :: reg where "l1 \<equiv> L 1"
abbreviation l2 :: reg where "l2 \<equiv> L 2"
abbreviation l3 :: reg where "l3 \<equiv> L 3"
abbreviation l4 :: reg where "l4 \<equiv> L 4"
abbreviation l5 :: reg where "l5 \<equiv> L 5"
abbreviation l6 :: reg where "l6 \<equiv> L 6"
abbreviation l7 :: reg where "l7 \<equiv> L 7"
abbreviation i0 :: reg where "i0 \<equiv> In 0"
abbreviation i2 :: reg where "i2 \<equiv> In 2"
abbreviation i4 :: reg where "i4 \<equiv> In 4"
abbreviation i6 :: reg where "i6 \<equiv> In 6"
abbreviation fp :: reg where "fp \<equiv> In 6"
abbreviation o0 :: reg where "o0 \<equiv> Out 0"
abbreviation sp :: reg where "sp \<equiv> Out 6"

text \<open>The current window pointer is the low five bits of the PSR.\<close>

definition cwp :: "machine \<Rightarrow> nat" where
  "cwp s = unat (psr s AND 0x1f)"

definition set_cwp :: "nat \<Rightarrow> machine \<Rightarrow> machine" where
  "set_cwp w s = s\<lparr>psr := (psr s AND NOT 0x1f) OR (of_nat w AND 0x1f)\<rparr>"

text \<open>SAVE moves to the window below (CWP - 1), RESTORE to the window above (CWP + 1).\<close>

definition window_below :: "machine \<Rightarrow> nat \<Rightarrow> nat" where
  "window_below s w = (w + nwindows s - 1) mod nwindows s"

definition window_above :: "machine \<Rightarrow> nat \<Rightarrow> nat" where
  "window_above s w = (w + 1) mod nwindows s"

fun read_reg :: "machine \<Rightarrow> reg \<Rightarrow> u32" where
  "read_reg s (G n) = (if n = 0 then 0 else globals s n)"
| "read_reg s (L n) = win_locals s (cwp s) n"
| "read_reg s (In n) = win_ins s (cwp s) n"
| "read_reg s (Out n) = win_ins s (window_below s (cwp s)) n"

fun write_reg :: "reg \<Rightarrow> u32 \<Rightarrow> machine \<Rightarrow> machine" where
  "write_reg (G n) v s = (if n = 0 then s else s\<lparr>globals := (globals s)(n := v)\<rparr>)"
| "write_reg (L n) v s =
     s\<lparr>win_locals := (win_locals s)(cwp s := (win_locals s (cwp s))(n := v))\<rparr>"
| "write_reg (In n) v s =
     s\<lparr>win_ins := (win_ins s)(cwp s := (win_ins s (cwp s))(n := v))\<rparr>"
| "write_reg (Out n) v s =
     s\<lparr>win_ins := (win_ins s)(window_below s (cwp s) :=
           (win_ins s (window_below s (cwp s)))(n := v))\<rparr>"

text \<open>The odd register of a doubleword pair.\<close>

fun next_reg :: "reg \<Rightarrow> reg" where
  "next_reg (G n) = G (Suc n)"
| "next_reg (Out n) = Out (Suc n)"
| "next_reg (L n) = L (Suc n)"
| "next_reg (In n) = In (Suc n)"

datatype operand = R reg | Imm u32

fun operand_value :: "machine \<Rightarrow> operand \<Rightarrow> u32" where
  "operand_value s (R r) = read_reg s r"
| "operand_value s (Imm k) = k"

subsection \<open>Memory\<close>

definition store32 :: "u32 \<Rightarrow> u32 \<Rightarrow> (u32 \<Rightarrow> u8) \<Rightarrow> (u32 \<Rightarrow> u8)" where
  "store32 a v m = m(a := ucast (drop_bit 24 v), a + 1 := ucast (drop_bit 16 v),
                     a + 2 := ucast (drop_bit 8 v), a + 3 := ucast v)"

definition load32 :: "(u32 \<Rightarrow> u8) \<Rightarrow> u32 \<Rightarrow> u32" where
  "load32 m a = push_bit 24 (ucast (m a)) OR push_bit 16 (ucast (m (a + 1)))
                OR push_bit 8 (ucast (m (a + 2))) OR ucast (m (a + 3))"

subsection \<open>Instructions\<close>

type_synonym instr = "machine \<Rightarrow> machine option"

definition i_mov :: "operand \<Rightarrow> reg \<Rightarrow> instr" where
  "i_mov src rd s = Some (write_reg rd (operand_value s src) s)"

definition alu :: "(u32 \<Rightarrow> u32 \<Rightarrow> u32) \<Rightarrow> reg \<Rightarrow> operand \<Rightarrow> reg \<Rightarrow> instr" where
  "alu f rs1 src2 rd s = Some (write_reg rd (f (read_reg s rs1) (operand_value s src2)) s)"

definition i_and :: "reg \<Rightarrow> operand \<Rightarrow> reg \<Rightarrow> instr" where
  "i_and = alu (\<lambda>a b. a AND b)"

definition i_andn :: "reg \<Rightarrow> operand \<Rightarrow> reg \<Rightarrow> instr" where
  "i_andn = alu (\<lambda>a b. a AND NOT b)"

definition i_or :: "reg \<Rightarrow> operand \<Rightarrow> reg \<Rightarrow> instr" where
  "i_or = alu (\<lambda>a b. a OR b)"

definition i_xor :: "reg \<Rightarrow> operand \<Rightarrow> reg \<Rightarrow> instr" where
  "i_xor = alu (\<lambda>a b. a XOR b)"

definition i_add :: "reg \<Rightarrow> operand \<Rightarrow> reg \<Rightarrow> instr" where
  "i_add = alu (\<lambda>a b. a + b)"

definition i_sub :: "reg \<Rightarrow> operand \<Rightarrow> reg \<Rightarrow> instr" where
  "i_sub = alu (\<lambda>a b. a - b)"

text \<open>The shift count is the low five bits of the second operand.\<close>

definition i_sll :: "reg \<Rightarrow> operand \<Rightarrow> reg \<Rightarrow> instr" where
  "i_sll = alu (\<lambda>a b. push_bit (unat (b AND 0x1f)) a)"

definition i_srl :: "reg \<Rightarrow> operand \<Rightarrow> reg \<Rightarrow> instr" where
  "i_srl = alu (\<lambda>a b. drop_bit (unat (b AND 0x1f)) a)"

text \<open>\<open>sethi %hi(v), rd\<close> and the \<open>%lo(v)\<close> that completes it.\<close>

definition hi :: "u32 \<Rightarrow> u32" where
  "hi v = v AND NOT 0x3ff"

definition lo :: "u32 \<Rightarrow> u32" where
  "lo v = v AND 0x3ff"

definition i_sethi :: "u32 \<Rightarrow> reg \<Rightarrow> instr" where
  "i_sethi v rd s = Some (write_reg rd v s)"

text \<open>\<open>st rs, [base + off]\<close>, \<open>std\<close>, \<open>ld [base + off], rd\<close> and \<open>ldd\<close>.\<close>

definition i_st :: "reg \<Rightarrow> reg \<Rightarrow> u32 \<Rightarrow> instr" where
  "i_st rs base off s = Some (s\<lparr>mem := store32 (read_reg s base + off) (read_reg s rs) (mem s)\<rparr>)"

definition i_std :: "reg \<Rightarrow> reg \<Rightarrow> u32 \<Rightarrow> instr" where
  "i_std rs base off s =
     Some (s\<lparr>mem := store32 (read_reg s base + (off + 4)) (read_reg s (next_reg rs))
                      (store32 (read_reg s base + off) (read_reg s rs) (mem s))\<rparr>)"

definition i_ld :: "reg \<Rightarrow> u32 \<Rightarrow> reg \<Rightarrow> instr" where
  "i_ld base off rd s = Some (write_reg rd (load32 (mem s) (read_reg s base + off)) s)"

definition i_ldd :: "reg \<Rightarrow> u32 \<Rightarrow> reg \<Rightarrow> instr" where
  "i_ldd base off rd s =
     Some (write_reg (next_reg rd) (load32 (mem s) (read_reg s base + (off + 4)))
             (write_reg rd (load32 (mem s) (read_reg s base + off)) s))"

text \<open>
  \<open>ld [%lo(X) + base], rd\<close> and \<open>st rs, [%lo(X) + base]\<close> after \<open>sethi %hi(X), base\<close>:
  the access to the variable \<open>X\<close>.
\<close>

definition i_ld_sym :: "symbol \<Rightarrow> reg \<Rightarrow> reg \<Rightarrow> instr" where
  "i_ld_sym x base rd s = Some (write_reg rd (vars s x) s)"

definition i_st_sym :: "reg \<Rightarrow> symbol \<Rightarrow> reg \<Rightarrow> instr" where
  "i_st_sym rs x base s = Some (s\<lparr>vars := (vars s)(x := read_reg s rs)\<rparr>)"

text \<open>
  Reads and writes of WIM, Y and PSR (\<open>mov %wim, rd\<close>, \<open>mov src, %wim\<close>, ...). WIM has
  one bit for each implemented window; the others read as zero.
\<close>

definition i_rd_wim :: "reg \<Rightarrow> instr" where
  "i_rd_wim rd s = Some (write_reg rd (wim s) s)"

definition i_wr_wim :: "operand \<Rightarrow> instr" where
  "i_wr_wim src s = Some (s\<lparr>wim := take_bit (nwindows s) (operand_value s src)\<rparr>)"

definition i_rd_y :: "reg \<Rightarrow> instr" where
  "i_rd_y rd s = Some (write_reg rd (yreg s) s)"

definition i_wr_y :: "operand \<Rightarrow> instr" where
  "i_wr_y src s = Some (s\<lparr>yreg := operand_value s src\<rparr>)"

definition i_wr_psr :: "operand \<Rightarrow> instr" where
  "i_wr_psr src s = Some (s\<lparr>psr := operand_value s src\<rparr>)"

text \<open>
  The integer condition codes N, Z, V and C are the bits 23, 22, 21 and 20 of the PSR.
  A logical instruction with \<open>cc\<close> sets N and Z from its result and clears V and C; a
  subtraction with \<open>cc\<close> sets V on a signed overflow and C on a borrow.
\<close>

definition with_icc :: "bool \<Rightarrow> bool \<Rightarrow> bool \<Rightarrow> bool \<Rightarrow> u32 \<Rightarrow> u32" where
  "with_icc n z v c p =
     (p AND NOT 0xf00000) OR push_bit 23 (of_bool n) OR push_bit 22 (of_bool z)
       OR push_bit 21 (of_bool v) OR push_bit 20 (of_bool c)"

definition icc_logic :: "u32 \<Rightarrow> u32 \<Rightarrow> u32" where
  "icc_logic r p = with_icc (bit r 31) (r = 0) False False p"

definition icc_sub :: "u32 \<Rightarrow> u32 \<Rightarrow> u32 \<Rightarrow> u32" where
  "icc_sub a b p =
     with_icc (bit (a - b) 31) (a - b = 0)
       ((bit a 31 \<and> \<not> bit b 31 \<and> \<not> bit (a - b) 31) \<or> (\<not> bit a 31 \<and> bit b 31 \<and> bit (a - b) 31))
       ((\<not> bit a 31 \<and> bit b 31) \<or> (bit (a - b) 31 \<and> (\<not> bit a 31 \<or> bit b 31))) p"

definition logic_cc :: "u32 \<Rightarrow> machine \<Rightarrow> machine" where
  "logic_cc r s = s\<lparr>psr := icc_logic r (psr s)\<rparr>"

definition sub_cc :: "u32 \<Rightarrow> u32 \<Rightarrow> machine \<Rightarrow> machine" where
  "sub_cc a b s = s\<lparr>psr := icc_sub a b (psr s)\<rparr>"

definition i_andcc :: "reg \<Rightarrow> operand \<Rightarrow> reg \<Rightarrow> instr" where
  "i_andcc rs1 src2 rd s =
     Some (write_reg rd (read_reg s rs1 AND operand_value s src2)
             (logic_cc (read_reg s rs1 AND operand_value s src2) s))"

definition i_orcc :: "reg \<Rightarrow> operand \<Rightarrow> reg \<Rightarrow> instr" where
  "i_orcc rs1 src2 rd s =
     Some (write_reg rd (read_reg s rs1 OR operand_value s src2)
             (logic_cc (read_reg s rs1 OR operand_value s src2) s))"

definition i_subcc :: "reg \<Rightarrow> operand \<Rightarrow> reg \<Rightarrow> instr" where
  "i_subcc rs1 src2 rd s =
     Some (write_reg rd (read_reg s rs1 - operand_value s src2)
             (sub_cc (read_reg s rs1) (operand_value s src2) s))"

text \<open>\<open>tst rs\<close> is \<open>orcc %g0, rs, %g0\<close>.\<close>

definition i_tst :: "reg \<Rightarrow> instr" where
  "i_tst rs = i_orcc g0 (R rs) g0"

text \<open>\<open>bz\<close> and \<open>be\<close> branch when Z is set, \<open>bnz\<close> and \<open>bne\<close> when it is clear.\<close>

definition icc_z :: "machine \<Rightarrow> bool" where
  "icc_z s = bit (psr s) 22"

text \<open>
  \<open>save rs1, src2, rd\<close> and \<open>restore rs1, src2, rd\<close>: the sum is read in the old window
  and written in the new one. Without operands all three are \<open>%g0\<close>.
\<close>

definition i_save :: "reg \<Rightarrow> operand \<Rightarrow> reg \<Rightarrow> instr" where
  "i_save rs1 src2 rd s =
     (let v = read_reg s rs1 + operand_value s src2; w = window_below s (cwp s)
      in if bit (wim s) w then None else Some (write_reg rd v (set_cwp w s)))"

definition i_restore :: "reg \<Rightarrow> operand \<Rightarrow> reg \<Rightarrow> instr" where
  "i_restore rs1 src2 rd s =
     (let v = read_reg s rs1 + operand_value s src2; w = window_above s (cwp s)
      in if bit (wim s) w then None else Some (write_reg rd v (set_cwp w s)))"

text \<open>A straight-line block; \<open>None\<close> when one of its instructions has no next state.\<close>

fun exec :: "instr list \<Rightarrow> machine \<Rightarrow> machine option" where
  "exec [] s = Some s"
| "exec (i # is) s = (case i s of None \<Rightarrow> None | Some s1 \<Rightarrow> exec is s1)"

text \<open>
  The constants of \<open>sparcassembly.h\<close>, which is not among the sources, and the address
  the linker gives each symbol.
\<close>

record config =
  SPARC_PSR_CWP_MASK :: u32
  SPARC_PSR_ET_MASK :: u32
  SPARC_PSR_PIL_MASK :: u32
  SPARC_NON_RESTORABLE_BITS_IN_PSR :: u32
  SPARC_STACK_BARE_MINIMUM_STACK_FRAME_RESERVATION_SIZE :: u32
  SPARC_STACK_BASE_CONTEXT_RESERVATION_SIZE :: u32
  address_of :: "symbol \<Rightarrow> u32"
  sparcNullTaskContextData :: u32

text \<open>The PSR fields the three masks name in the SPARC V8 architecture.\<close>

definition psr_masks_v8 :: "config \<Rightarrow> bool" where
  "psr_masks_v8 cfg =
     (SPARC_PSR_CWP_MASK cfg = 0x1f \<and> SPARC_PSR_ET_MASK cfg = 0x20 \<and> SPARC_PSR_PIL_MASK cfg = 0xf00)"

definition psr_pil :: "u32 \<Rightarrow> u32" where
  "psr_pil p = drop_bit 8 p AND 0xf"

definition psr_et :: "u32 \<Rightarrow> bool" where
  "psr_et p = bit p 5"

text \<open>A PSR value without its condition codes (bits 23 to 20).\<close>

definition psr_but_icc :: "u32 \<Rightarrow> u32" where
  "psr_but_icc p = p AND NOT 0xf00000"

section \<open>The trap handler\<close>

subsection \<open>Common entry code\<close>

text \<open>
  On entry \<open>%l0\<close> = PSR, \<open>%l1\<close> = PC, \<open>%l2\<close> = nPC and \<open>%l3\<close> = the index into the trap
  handler table, whose sixth bit is 0 for interrupts and 1 for software traps.
  \<open>andcc %l3, 0x20, %g0; bz common_interrupting_trap\<close> (with a \<open>nop\<close> in the delay
  slot) skips the two instructions that move the return address of a software trap.
\<close>

definition software_trap_return :: "instr list" where
  "software_trap_return =
     [ i_mov (R l2) l1,
       i_add l1 (Imm 0x04) l2 ]"

definition unify_return_address :: "machine \<Rightarrow> machine option" where
  "unify_return_address s =
     do { s1 \<leftarrow> i_andcc l3 (Imm 0x20) g0 s;
          if icc_z s1 then Some s1 else exec software_trap_return s1 }"

text \<open>
  \<open>common_interrupting_trap\<close>: the old value of the flag is loaded into \<open>%l5\<close> and
  tested, and the store of 1 sits in the delay slot of \<open>bnz nested_trap_handler\<close>, so it
  is executed on both ways out.
\<close>

definition common_interrupting_trap :: "config \<Rightarrow> instr list" where
  "common_interrupting_trap cfg =
     [ i_sethi (hi (address_of cfg system_in_interrupt_context)) l4,
       i_ld_sym system_in_interrupt_context l4 l5,
       i_mov (Imm 0x1) l6,
       i_tst l5,
       i_st_sym l6 system_in_interrupt_context l4 ]"

definition common_entry :: "config \<Rightarrow> machine \<Rightarrow> machine option" where
  "common_entry cfg s = do { s1 \<leftarrow> unify_return_address s; exec (common_interrupting_trap cfg) s1 }"

subsection \<open>Calling the handler caller (the same instructions on both paths)\<close>

text \<open>
  \<open>outermost_set_interrupt_handler_caller_address\<close> and
  \<open>nested_set_interrupt_handler_caller_address\<close>, up to the delay slot of the call.
\<close>

definition set_interrupt_handler_caller_address :: "config \<Rightarrow> instr list" where
  "set_interrupt_handler_caller_address cfg =
     [ i_andn l0 (Imm (SPARC_PSR_PIL_MASK cfg)) l4,
       i_and l3 (Imm 0x0f) l5,
       i_sll l5 (Imm 0x08) l5,
       i_or l4 (R l5) l4,
       i_wr_psr (R l4),
       i_or l4 (Imm (SPARC_PSR_ET_MASK cfg)) l4,
       i_wr_psr (R l4),
       i_and l3 (Imm 0x1f) o0 ]"

text \<open>
  \<open>outermost_set_task_context_replacement_handler_address\<close> and its nested twin.
\<close>

definition set_task_context_replacement_handler_address :: "config \<Rightarrow> instr list" where
  "set_task_context_replacement_handler_address cfg =
     [ i_or l0 (Imm (SPARC_PSR_ET_MASK cfg)) l4,
       i_wr_psr (R l4),
       i_and l3 (Imm 0x1f) o0 ]"

text \<open>
  The two external functions \<open>sparcInterruptHandlerCaller\<close> and
  \<open>sparcTaskContextReplacementHandlerCaller\<close> are parameters: what the \<open>call\<close> and the
  callee do to the machine (the argument is in \<open>%o0\<close>), \<open>None\<close> when the callee does
  not return. \<open>before_call\<close> is the state the callee starts in. The choice is
  \<open>andcc %l3, 0x20, %g0; bnz ..._set_task_context_replacement_handler_address\<close>; the
  delay slot of the branch holds the first instruction of the interrupt case,
  \<open>andn %l0, SPARC_PSR_PIL_MASK, %l4\<close>, which is therefore executed in both cases.
\<close>

record callers =
  sparcInterruptHandlerCaller :: "machine \<Rightarrow> machine option"
  sparcTaskContextReplacementHandlerCaller :: "machine \<Rightarrow> machine option"

definition before_call :: "config \<Rightarrow> machine \<Rightarrow> machine option" where
  "before_call cfg s =
     do { s1 \<leftarrow> i_andcc l3 (Imm 0x20) g0 s;
          if \<not> icc_z s1
          then exec (i_andn l0 (Imm (SPARC_PSR_PIL_MASK cfg)) l4
                      # set_task_context_replacement_handler_address cfg) s1
          else exec (set_interrupt_handler_caller_address cfg) s1 }"

definition call_handler_caller :: "config \<Rightarrow> callers \<Rightarrow> machine \<Rightarrow> machine option" where
  "call_handler_caller cfg ext s =
     do { s1 \<leftarrow> i_andcc l3 (Imm 0x20) g0 s;
          if \<not> icc_z s1
          then do { s2 \<leftarrow> exec (i_andn l0 (Imm (SPARC_PSR_PIL_MASK cfg)) l4
                                # set_task_context_replacement_handler_address cfg) s1;
                    sparcTaskContextReplacementHandlerCaller ext s2 }
          else do { s2 \<leftarrow> exec (set_interrupt_handler_caller_address cfg) s1;
                    sparcInterruptHandlerCaller ext s2 } }"

text \<open>\<open>outermost_disable_traps\<close> and \<open>nested_disable_traps\<close>: \<open>mov %l0, %psr\<close>.\<close>

definition disable_traps :: "instr list" where
  "disable_traps = [ i_wr_psr (R l0) ]"

subsection \<open>Outermost trap: dumping the register windows\<close>

definition outermost_trap_handler :: "config \<Rightarrow> instr list" where
  "outermost_trap_handler cfg =
     [ i_mov (R g4) l4,
       i_mov (R g5) l5,
       i_mov (R g6) l6,
       i_mov (R g7) l7,
       i_sethi (hi (address_of cfg detected_sparc_register_windows)) g7,
       i_ld_sym detected_sparc_register_windows g7 g7,
       i_sub g7 (Imm 0x1) g7,
       i_and l0 (Imm (SPARC_PSR_CWP_MASK cfg)) g4,
       i_add g4 (Imm 0x1) g4,
       i_and g4 (R g7) g4,
       i_mov (Imm 0x1) g6,
       i_sll g6 (R g4) g6,
       i_rd_wim g5,
       i_xor g3 (R l0) l0,
       i_xor g3 (R l0) g3,
       i_xor g3 (R l0) l0 ]"

definition dump_window :: "instr list" where
  "dump_window =
     [ i_restore g0 (R g0) g0,
       i_std l0 sp 0,
       i_std l2 sp 8,
       i_std l4 sp 16,
       i_std l6 sp 24,
       i_std i0 sp 32,
       i_std i2 sp 40,
       i_std i4 sp 48,
       i_std i6 sp 56,
       i_srl g5 (Imm 0x1) g4,
       i_sll g5 (R g7) g5,
       i_or g4 (R g5) g5,
       i_mov (Imm 0x02) g4,
       i_sll g4 (R g7) g4,
       i_sub g4 (Imm 0x01) g4,
       i_and g5 (R g4) g5,
       i_subcc g5 (R g6) g0 ]"

text \<open>
  \<open>outermost_dump_windows_loop\<close>: the body, which ends with \<open>subcc %g5, %g6, %g0\<close>, is
  repeated while \<open>%g5\<close> differs from \<open>%g6\<close> (\<open>bne\<close>, with a \<open>nop\<close> in the delay
  slot). Nothing bounds the number of rounds, so the
  loop is a partial function: \<open>None\<close> is also a loop that never ends.
\<close>

partial_function (option) outermost_dump_windows_loop :: "machine \<Rightarrow> machine option" where
  "outermost_dump_windows_loop s =
     (case exec dump_window s of
        None \<Rightarrow> None
      | Some s1 \<Rightarrow> if \<not> icc_z s1 then outermost_dump_windows_loop s1 else Some s1)"

definition outermost_dump_done :: "instr list" where
  "outermost_dump_done =
     [ i_wr_wim (R g6),
       i_wr_psr (R g3),
       i_xor g3 (R l0) l0,
       i_xor g3 (R l0) g3,
       i_xor g3 (R l0) l0 ]"

subsection \<open>The context record\<close>

text \<open>
  The layout both save steps write and both restore steps read: PSR at offset 0,
  \<open>%g1\<close> to \<open>%g7\<close> at 4 to 28, \<open>%i0\<close> to \<open>%i7\<close> at 32 to 60, Y at 64, PC at 68 and nPC
  at 72. The word at offset 76 is the frozen flag of a task context.
\<close>

record task_context =
  context_psr :: u32
  context_globals :: "u32 list"
  context_ins :: "u32 list"
  context_y :: u32
  context_pc :: u32
  context_npc :: u32

definition context_at :: "(u32 \<Rightarrow> u8) \<Rightarrow> u32 \<Rightarrow> task_context" where
  "context_at m d =
     \<lparr> context_psr = load32 m d,
       context_globals = [load32 m (d + 4), load32 m (d + 8), load32 m (d + 12), load32 m (d + 16),
                          load32 m (d + 20), load32 m (d + 24), load32 m (d + 28)],
       context_ins = [load32 m (d + 32), load32 m (d + 36), load32 m (d + 40), load32 m (d + 44),
                      load32 m (d + 48), load32 m (d + 52), load32 m (d + 56), load32 m (d + 60)],
       context_y = load32 m (d + 64),
       context_pc = load32 m (d + 68),
       context_npc = load32 m (d + 72) \<rparr>"

definition frozen_flag :: "(u32 \<Rightarrow> u8) \<Rightarrow> u32 \<Rightarrow> u32" where
  "frozen_flag m d = load32 m (d + 76)"

text \<open>The same items in the registers of the trap window.\<close>

definition register_context :: "machine \<Rightarrow> task_context" where
  "register_context s =
     \<lparr> context_psr = read_reg s l0,
       context_globals = [read_reg s g1, read_reg s g2, read_reg s g3, read_reg s g4,
                          read_reg s g5, read_reg s g6, read_reg s g7],
       context_ins = [read_reg s (In 0), read_reg s (In 1), read_reg s (In 2), read_reg s (In 3),
                      read_reg s (In 4), read_reg s (In 5), read_reg s (In 6), read_reg s (In 7)],
       context_y = yreg s,
       context_pc = read_reg s l1,
       context_npc = read_reg s l2 \<rparr>"

text \<open>
  On the outermost path \<open>%g4\<close> to \<open>%g7\<close> of the interrupted task are in \<open>%l4\<close> to \<open>%l7\<close>
  when its context is saved.
\<close>

definition relocated_context :: "machine \<Rightarrow> task_context" where
  "relocated_context s =
     (register_context s)\<lparr>context_globals :=
        [read_reg s g1, read_reg s g2, read_reg s g3, read_reg s l4,
         read_reg s l5, read_reg s l6, read_reg s l7]\<rparr>"




subsection \<open>Outermost trap: saving the context of the active task\<close>

definition outermost_save_context :: "config \<Rightarrow> instr list" where
  "outermost_save_context cfg =
     [ i_sethi (hi (address_of cfg active_thread_context_stack_pointer)) g4,
       i_ld_sym active_thread_context_stack_pointer g4 g4,
       i_ld g4 76 g5,
       i_tst g5 ]"

definition outermost_null_task_context :: "config \<Rightarrow> instr list" where
  "outermost_null_task_context cfg =
     [ i_sethi (hi (sparcNullTaskContextData cfg)) g5,
       i_or g5 (Imm (lo (sparcNullTaskContextData cfg))) g5,
       i_sethi (hi (address_of cfg active_thread_context_stack_pointer)) g4,
       i_st_sym g5 active_thread_context_stack_pointer g4,
       i_mov (R g5) g4 ]"

definition outermost_regular_context :: "instr list" where
  "outermost_regular_context =
     [ i_st l0 g4 0,
       i_st g1 g4 4,
       i_std g2 g4 8,
       i_std l4 g4 16,
       i_std l6 g4 24,
       i_std i0 g4 32,
       i_std i2 g4 40,
       i_std i4 g4 48,
       i_std i6 g4 56,
       i_rd_y l5,
       i_st l5 g4 64,
       i_st l1 g4 68,
       i_st l2 g4 72 ]"

text \<open>
  The save step of the outermost path: \<open>tst %g5; bz outermost_regular_context\<close> skips
  the switch to the null context when the frozen flag read from offset 76 is zero.
\<close>

definition outermost_select_context :: "config \<Rightarrow> machine \<Rightarrow> machine option" where
  "outermost_select_context cfg s =
     do { s1 \<leftarrow> exec (outermost_save_context cfg) s;
          if icc_z s1 then Some s1 else exec (outermost_null_task_context cfg) s1 }"

definition outermost_save :: "config \<Rightarrow> machine \<Rightarrow> machine option" where
  "outermost_save cfg s =
     do { s2 \<leftarrow> outermost_select_context cfg s;
          exec outermost_regular_context s2 }"

subsection \<open>Outermost trap: after the call\<close>

definition outermost_release_frame :: "config \<Rightarrow> instr list" where
  "outermost_release_frame cfg =
     [ i_add sp (Imm (SPARC_STACK_BARE_MINIMUM_STACK_FRAME_RESERVATION_SIZE cfg)) sp ]"

text \<open>Set the interrupt context flag to 0.\<close>

definition outermost_clear_flag :: "config \<Rightarrow> instr list" where
  "outermost_clear_flag cfg =
     [ i_sethi (hi (address_of cfg system_in_interrupt_context)) l4,
       i_st_sym g0 system_in_interrupt_context l4 ]"

text \<open>The stack pointer becomes the pointer to the context of the now active task.\<close>

definition outermost_load_context_pointer :: "config \<Rightarrow> instr list" where
  "outermost_load_context_pointer cfg =
     [ i_sethi (hi (address_of cfg active_thread_context_stack_pointer)) l4,
       i_ld_sym active_thread_context_stack_pointer l4 sp ]"

definition outermost_restore_context :: "config \<Rightarrow> instr list" where
  "outermost_restore_context cfg =
     [ i_ld sp 0 l4,
       i_sethi (hi (SPARC_NON_RESTORABLE_BITS_IN_PSR cfg)) l5,
       i_or l5 (Imm (lo (SPARC_NON_RESTORABLE_BITS_IN_PSR cfg))) l5,
       i_and l0 (R l5) l0,
       i_andn l4 (R l5) l4,
       i_or l0 (R l4) l0,
       i_ld sp 4 g1,
       i_ldd sp 8 g2,
       i_ldd sp 16 g4,
       i_ldd sp 24 g6,
       i_ldd sp 32 i0,
       i_ldd sp 40 i2,
       i_ldd sp 48 i4,
       i_ldd sp 56 i6,
       i_ld sp 64 l5,
       i_wr_y (R l5),
       i_ld sp 68 l1,
       i_ld sp 72 l2 ]"

definition outermost_force_underflow :: "config \<Rightarrow> instr list" where
  "outermost_force_underflow cfg =
     [ i_rd_wim l4,
       i_sethi (hi (address_of cfg detected_sparc_register_windows)) l5,
       i_ld_sym detected_sparc_register_windows l5 l5,
       i_sub l5 (Imm 1) l5,
       i_sll l4 (Imm 1) l6,
       i_srl l4 (R l5) l4,
       i_or l4 (R l6) l4,
       i_wr_wim (R l4),
       i_restore g0 (R g0) g0,
       i_ldd sp 0 l0,
       i_ldd sp 8 l2,
       i_ldd sp 16 l4,
       i_ldd sp 24 l6,
       i_ldd sp 32 i0,
       i_ldd sp 40 i2,
       i_ldd sp 48 i4,
       i_ldd sp 56 i6,
       i_save sp (Imm (SPARC_STACK_BARE_MINIMUM_STACK_FRAME_RESERVATION_SIZE cfg)) sp ]"

subsection \<open>Nested trap\<close>

definition nested_trap_handler :: "config \<Rightarrow> instr list" where
  "nested_trap_handler cfg =
     [ i_sethi (hi (address_of cfg detected_sparc_register_windows)) l7,
       i_ld_sym detected_sparc_register_windows l7 l7,
       i_sub l7 (Imm 0x1) l7,
       i_and l0 (Imm (SPARC_PSR_CWP_MASK cfg)) l4,
       i_mov (Imm 0x1) l6,
       i_sll l6 (R l4) l6,
       i_rd_wim l5,
       i_subcc l5 (R l6) g0 ]"

definition nested_window_overflow :: "instr list" where
  "nested_window_overflow =
     [ i_srl l5 (Imm 0x1) l4,
       i_sll l5 (R l7) l5,
       i_or l4 (R l5) l5,
       i_mov (R g5) l7,
       i_mov (R l5) g5,
       i_save g0 (R g0) g0,
       i_std l0 sp 0,
       i_std l2 sp 8,
       i_std l4 sp 16,
       i_std l6 sp 24,
       i_std i0 sp 32,
       i_std i2 sp 40,
       i_std i4 sp 48,
       i_std i6 sp 56,
       i_wr_wim (R g5),
       i_restore g0 (R g0) g0,
       i_mov (R l7) g5 ]"

text \<open>
  Making sure a window is free for a further trap:
  \<open>subcc %l5, %l6, %g0; bne nested_no_window_overflow\<close>.
\<close>

definition nested_ensure_free_window :: "config \<Rightarrow> machine \<Rightarrow> machine option" where
  "nested_ensure_free_window cfg s =
     do { s1 \<leftarrow> exec (nested_trap_handler cfg) s;
          if \<not> icc_z s1 then Some s1 else exec nested_window_overflow s1 }"

definition nested_no_window_overflow :: "config \<Rightarrow> instr list" where
  "nested_no_window_overflow cfg =
     [ i_sub fp (Imm (SPARC_STACK_BASE_CONTEXT_RESERVATION_SIZE cfg)) sp,
       i_st l0 sp 0,
       i_st g1 sp 4,
       i_std g2 sp 8,
       i_std g4 sp 16,
       i_std g6 sp 24,
       i_std i0 sp 32,
       i_std i2 sp 40,
       i_std i4 sp 48,
       i_std i6 sp 56,
       i_rd_y l5,
       i_st l5 sp 64,
       i_st l1 sp 68,
       i_st l2 sp 72 ]"

definition nested_restore_context :: "instr list" where
  "nested_restore_context =
     [ i_ld sp 0 l0,
       i_ld sp 4 g1,
       i_ldd sp 8 g2,
       i_ldd sp 16 g4,
       i_ldd sp 24 g6,
       i_ldd sp 32 i0,
       i_ldd sp 40 i2,
       i_ldd sp 48 i4,
       i_ldd sp 56 i6,
       i_ld sp 64 l5,
       i_wr_y (R l5),
       i_ld sp 68 l1,
       i_ld sp 72 l2 ]"

definition nested_check_window_above :: "config \<Rightarrow> instr list" where
  "nested_check_window_above cfg =
     [ i_sethi (hi (address_of cfg detected_sparc_register_windows)) l5,
       i_ld_sym detected_sparc_register_windows l5 l5,
       i_sub l5 (Imm 1) l5,
       i_and l0 (Imm (SPARC_PSR_CWP_MASK cfg)) l7,
       i_add l7 (Imm 1) l7,
       i_and l7 (R l5) l7,
       i_mov (Imm 0x1) l6,
       i_sll l6 (R l7) l6,
       i_rd_wim l4,
       i_subcc l4 (R l6) g0 ]"

definition nested_restore_invalid_window :: "instr list" where
  "nested_restore_invalid_window =
     [ i_sll l4 (Imm 1) l6,
       i_srl l4 (R l5) l4,
       i_or l4 (R l6) l4,
       i_wr_wim (R l4),
       i_restore g0 (R g0) g0,
       i_ldd sp 0 l0,
       i_ldd sp 8 l2,
       i_ldd sp 16 l4,
       i_ldd sp 24 l6,
       i_ldd sp 32 i0,
       i_ldd sp 40 i2,
       i_ldd sp 48 i4,
       i_ldd sp 56 i6,
       i_save g0 (R g0) g0 ]"

definition nested_refill_window :: "config \<Rightarrow> machine \<Rightarrow> machine option" where
  "nested_refill_window cfg s =
     do { s1 \<leftarrow> exec (nested_check_window_above cfg) s;
          if \<not> icc_z s1 then Some s1 else exec nested_restore_invalid_window s1 }"

subsection \<open>Common exit code and the whole routine\<close>

text \<open>
  \<open>jmp %l1; rett %l2\<close>: the return from the trap resumes at \<open>%l1\<close> with \<open>%l2\<close> next,
  moves to the window above, copies PS (bit 6) into S (bit 7) and sets ET (bit 5). It
  has no next state with traps enabled, outside supervisor mode, or into a window marked
  in WIM.
\<close>

definition i_jmp_rett :: "reg \<Rightarrow> reg \<Rightarrow> instr" where
  "i_jmp_rett ra rb s =
     (let w = window_above s (cwp s)
      in if bit (psr s) 5 \<or> \<not> bit (psr s) 7 \<or> bit (wim s) w then None
         else Some (set_cwp w
                (s\<lparr>psr := (if bit (psr s) 6 then psr s OR 0x80 else psr s AND NOT 0x80) OR 0x20,
                   pc := read_reg s ra, npc := read_reg s rb\<rparr>)))"

definition common_return_from_trap :: "instr list" where
  "common_return_from_trap =
     [ i_wr_psr (R l0),
       i_jmp_rett l1 l2 ]"

text \<open>The outermost path, from the fall-through of \<open>bnz nested_trap_handler\<close> on.\<close>

definition outermost_make_frame :: "config \<Rightarrow> instr list" where
  "outermost_make_frame cfg =
     [ i_sub fp (Imm (SPARC_STACK_BARE_MINIMUM_STACK_FRAME_RESERVATION_SIZE cfg)) sp ]"

definition outermost_before_call :: "config \<Rightarrow> machine \<Rightarrow> machine option" where
  "outermost_before_call cfg s =
     do { s1 \<leftarrow> exec (outermost_trap_handler cfg) s;
          s2 \<leftarrow> outermost_dump_windows_loop s1;
          s3 \<leftarrow> exec outermost_dump_done s2;
          s4 \<leftarrow> outermost_save cfg s3;
          exec (outermost_make_frame cfg) s4 }"

definition outermost_after_call :: "config \<Rightarrow> machine \<Rightarrow> machine option" where
  "outermost_after_call cfg s =
     do { s1 \<leftarrow> exec disable_traps s;
          s2 \<leftarrow> exec (outermost_release_frame cfg) s1;
          s3 \<leftarrow> exec (outermost_clear_flag cfg) s2;
          s4 \<leftarrow> exec (outermost_load_context_pointer cfg) s3;
          s5 \<leftarrow> exec (outermost_restore_context cfg) s4;
          s6 \<leftarrow> exec (outermost_force_underflow cfg) s5;
          exec common_return_from_trap s6 }"

definition outermost_trap :: "config \<Rightarrow> callers \<Rightarrow> machine \<Rightarrow> machine option" where
  "outermost_trap cfg ext s =
     do { s1 \<leftarrow> outermost_before_call cfg s;
          s2 \<leftarrow> call_handler_caller cfg ext s1;
          outermost_after_call cfg s2 }"

definition nested_make_frame :: "config \<Rightarrow> instr list" where
  "nested_make_frame cfg =
     [ i_sub sp (Imm (SPARC_STACK_BARE_MINIMUM_STACK_FRAME_RESERVATION_SIZE cfg)) sp ]"

definition nested_release_frame :: "config \<Rightarrow> instr list" where
  "nested_release_frame cfg =
     [ i_add sp (Imm (SPARC_STACK_BARE_MINIMUM_STACK_FRAME_RESERVATION_SIZE cfg)) sp ]"

definition nested_before_call :: "config \<Rightarrow> machine \<Rightarrow> machine option" where
  "nested_before_call cfg s =
     do { s1 \<leftarrow> nested_ensure_free_window cfg s;
          s2 \<leftarrow> exec (nested_no_window_overflow cfg) s1;
          exec (nested_make_frame cfg) s2 }"

definition nested_after_call :: "config \<Rightarrow> machine \<Rightarrow> machine option" where
  "nested_after_call cfg s =
     do { s1 \<leftarrow> exec disable_traps s;
          s2 \<leftarrow> exec (nested_release_frame cfg) s1;
          s3 \<leftarrow> exec nested_restore_context s2;
          s4 \<leftarrow> nested_refill_window cfg s3;
          exec common_return_from_trap s4 }"

definition nested_trap :: "config \<Rightarrow> callers \<Rightarrow> machine \<Rightarrow> machine option" where
  "nested_trap cfg ext s =
     do { s1 \<leftarrow> nested_before_call cfg s;
          s2 \<leftarrow> call_handler_caller cfg ext s1;
          nested_after_call cfg s2 }"

text \<open>\<open>tst %l5; bnz nested_trap_handler\<close> on the old value of the flag.\<close>

definition sparcTaskContextAwareTrapHandler :: "config \<Rightarrow> callers \<Rightarrow> machine \<Rightarrow> machine option" where
  "sparcTaskContextAwareTrapHandler cfg ext s =
     do { s1 \<leftarrow> common_entry cfg s;
          if \<not> icc_z s1 then nested_trap cfg ext s1 else outermost_trap cfg ext s1 }"

subsection \<open>Traps inside the call\<close>

text \<open>
  What brings the processor to the routine: the trap itself (ET becomes 0, PS takes S,
  S becomes 1, the window below becomes the current one, PC and nPC go to \<open>%l1\<close> and
  \<open>%l2\<close> of it) and the trap table, which is not among the sources and of which the
  routine assumes \<open>%l0\<close> = PSR and \<open>%l3\<close> = the index.
\<close>

definition take_trap :: "u32 \<Rightarrow> machine \<Rightarrow> machine" where
  "take_trap index s =
     (let p = ((if bit (psr s) 7 then psr s OR 0x40 else psr s AND NOT 0x40) OR 0x80) AND NOT 0x20;
          s1 = set_cwp (window_below s (cwp s)) (s\<lparr>psr := p\<rparr>)
      in write_reg l3 index (write_reg l0 (psr s1)
           (write_reg l2 (npc s) (write_reg l1 (pc s) s1))))"

text \<open>
  Callees whose call is interrupted: at depth 0 the callees themselves; one level deeper
  a trap with the index \<open>index n\<close> is taken as soon as the callee starts, handled by the
  routine with the callees of the level below, and the callee runs when that trap has
  returned.
\<close>

primrec interrupted_callers :: "config \<Rightarrow> callers \<Rightarrow> (nat \<Rightarrow> u32) \<Rightarrow> nat \<Rightarrow> callers" where
  "interrupted_callers cfg ext index 0 = ext"
| "interrupted_callers cfg ext index (Suc n) =
     \<lparr> sparcInterruptHandlerCaller =
         (\<lambda>s. do { s1 \<leftarrow> sparcTaskContextAwareTrapHandler cfg
                            (interrupted_callers cfg ext index n) (take_trap (index n) s);
                    sparcInterruptHandlerCaller ext s1 }),
       sparcTaskContextReplacementHandlerCaller =
         (\<lambda>s. do { s1 \<leftarrow> sparcTaskContextAwareTrapHandler cfg
                            (interrupted_callers cfg ext index n) (take_trap (index n) s);
                    sparcTaskContextReplacementHandlerCaller ext s1 }) \<rparr>"

text \<open>
  Callees that leave \<open>system_in_interrupt_context\<close> as they find it, and an instruction
  that writes none of the three variables.
\<close>

definition callers_keep_flag :: "callers \<Rightarrow> bool" where
  "callers_keep_flag ext =
     (\<forall>x y. sparcInterruptHandlerCaller ext x = Some y
               \<or> sparcTaskContextReplacementHandlerCaller ext x = Some y
            \<longrightarrow> vars y system_in_interrupt_context = vars x system_in_interrupt_context)"

definition keeps_vars :: "instr \<Rightarrow> bool" where
  "keeps_vars i = (\<forall>s s'. i s = Some s' \<longrightarrow> vars s' = vars s)"

section \<open>A configuration and a machine state to run the routine on\<close>

text \<open>
  The PSR fields as the SPARC V8 manual lays them out, a stack frame of 96 bytes, a
  context area of 80 bytes, and the low twelve bits of the PSR (PIL, S, PS, ET and CWP)
  as the bits that are not restored.
\<close>

definition example_config :: config where
  "example_config =
     \<lparr> SPARC_PSR_CWP_MASK = 0x1f, SPARC_PSR_ET_MASK = 0x20, SPARC_PSR_PIL_MASK = 0xf00,
       SPARC_NON_RESTORABLE_BITS_IN_PSR = 0xfff,
       SPARC_STACK_BARE_MINIMUM_STACK_FRAME_RESERVATION_SIZE = 0x60,
       SPARC_STACK_BASE_CONTEXT_RESERVATION_SIZE = 0x50,
       address_of = (\<lambda>x. case x of system_in_interrupt_context \<Rightarrow> 0x40001000
                             | detected_sparc_register_windows \<Rightarrow> 0x40001004
                             | active_thread_context_stack_pointer \<Rightarrow> 0x40001008),
       sparcNullTaskContextData = 0x40002000 \<rparr>"

text \<open>
  A processor with eight windows that has just taken a trap into window 3: supervisor
  mode, traps disabled, PIL 2, window 6 invalid. Register \<open>n\<close> of window \<open>w\<close> holds a
  value that tells both, the stack pointers lie \<open>0x1000\<close> apart, the memory is zero, no
  trap is being handled and the active context is at \<open>0x40003000\<close>.
\<close>

definition example_machine :: machine where
  "example_machine =
     \<lparr> globals = (\<lambda>n. 0x100 + of_nat n),
       win_locals = (\<lambda>w n. 0x200 + 0x10 * of_nat w + of_nat n),
       win_ins = (\<lambda>w n. 0x40100000 + 0x1000 * of_nat w + 8 * of_nat n),
       psr = 0x2C3, wim = 0x40, yreg = 0x77,
       mem = (\<lambda>a. 0),
       vars = (\<lambda>x. case x of system_in_interrupt_context \<Rightarrow> 0
                       | detected_sparc_register_windows \<Rightarrow> 8
                       | active_thread_context_stack_pointer \<Rightarrow> 0x40003000),
       nwindows = 8, pc = 0, npc = 0 \<rparr>"

text \<open>
  The registers the trap table fills before it jumps to the routine: \<open>%l0\<close> = PSR,
  \<open>%l1\<close> = PC, \<open>%l2\<close> = nPC, \<open>%l3\<close> = the index.
\<close>

definition at_entry :: "u32 \<Rightarrow> u32 \<Rightarrow> u32 \<Rightarrow> machine \<Rightarrow> machine" where
  "at_entry index trapped_pc trapped_npc s =
     write_reg l3 index (write_reg l2 trapped_npc (write_reg l1 trapped_pc (write_reg l0 (psr s) s)))"

text \<open>
  Two callees: an interrupt handler caller that leaves its argument in memory and in
  \<open>%g1\<close>, and a context replacement that makes another context the active one.
\<close>

definition example_callers :: callers where
  "example_callers =
     \<lparr> sparcInterruptHandlerCaller =
         (\<lambda>s. Some (write_reg g1 (read_reg s o0)
                  (s\<lparr>mem := store32 0x40300000 (read_reg s o0) (mem s)\<rparr>))),
       sparcTaskContextReplacementHandlerCaller =
         (\<lambda>s. Some (s\<lparr>vars := (vars s)(active_thread_context_stack_pointer := 0x40004000)\<rparr>)) \<rparr>"

text \<open>
  The state of interrupt 5 where the handler caller is chosen: \<open>%l0\<close> holds the PSR of
  the trap entry and the PSR has Z set by the test that came before.
\<close>

definition call_example :: machine where
  "call_example = (at_entry 0x05 0x40000200 0x40000204 example_machine)\<lparr>psr := 0x004002C3\<rparr>"

text \<open>
  The state of an interrupt 3 whose active context, at \<open>0x40003000\<close>, has its frozen
  flag set.
\<close>

definition frozen_example :: machine where
  "frozen_example =
     (at_entry 0x03 0x40000200 0x40000204 example_machine)
       \<lparr>mem := store32 0x4000304C 1 (mem example_machine)\<rparr>"






section \<open>Reading the state after a register or a field was written\<close>

lemma write_reg_fields [simp]:
  "psr (write_reg r v s) = psr s" "wim (write_reg r v s) = wim s"
  "yreg (write_reg r v s) = yreg s" "mem (write_reg r v s) = mem s"
  "vars (write_reg r v s) = vars s" "nwindows (write_reg r v s) = nwindows s"
  "pc (write_reg r v s) = pc s" "npc (write_reg r v s) = npc s"
  by (cases r; simp)+

lemma cwp_simps [simp]:
  "cwp (write_reg r v s) = cwp s"
  "cwp (s\<lparr>mem := m\<rparr>) = cwp s" "cwp (s\<lparr>vars := vs\<rparr>) = cwp s"
  "cwp (s\<lparr>yreg := yv\<rparr>) = cwp s" "cwp (s\<lparr>wim := wv\<rparr>) = cwp s"
  "cwp (s\<lparr>pc := a\<rparr>) = cwp s" "cwp (s\<lparr>npc := a\<rparr>) = cwp s"
  "cwp (s\<lparr>psr := p\<rparr>) = unat (p AND 0x1f)"
  by (simp_all add: cwp_def)

lemma window_simps [simp]:
  "window_below (write_reg r v s) w = window_below s w"
  "window_below (s\<lparr>mem := m\<rparr>) w = window_below s w"
  "window_below (s\<lparr>vars := vs\<rparr>) w = window_below s w"
  "window_below (s\<lparr>yreg := yv\<rparr>) w = window_below s w"
  "window_below (s\<lparr>wim := wv\<rparr>) w = window_below s w"
  "window_below (s\<lparr>psr := p\<rparr>) w = window_below s w"
  "window_above (write_reg r v s) w = window_above s w"
  "window_above (s\<lparr>mem := m\<rparr>) w = window_above s w"
  "window_above (s\<lparr>vars := vs\<rparr>) w = window_above s w"
  "window_above (s\<lparr>yreg := yv\<rparr>) w = window_above s w"
  "window_above (s\<lparr>wim := wv\<rparr>) w = window_above s w"
  "window_above (s\<lparr>psr := p\<rparr>) w = window_above s w"
  by (simp_all add: window_below_def window_above_def)

lemma read_reg_updates [simp]:
  "read_reg (s\<lparr>mem := m\<rparr>) r = read_reg s r"
  "read_reg (s\<lparr>vars := vs\<rparr>) r = read_reg s r"
  "read_reg (s\<lparr>yreg := yv\<rparr>) r = read_reg s r"
  "read_reg (s\<lparr>wim := wv\<rparr>) r = read_reg s r"
  by (cases r; simp)+

lemma read_reg_psr_update [simp]:
  "unat (p AND 0x1f) = cwp s \<Longrightarrow> read_reg (s\<lparr>psr := p\<rparr>) r = read_reg s r"
  by (cases r) simp_all

lemma read_global_psr_update [simp]:
  "read_reg (s\<lparr>psr := p\<rparr>) (G n) = read_reg s (G n)"
  by simp

lemma read_write_reg [simp]:
  "read_reg (write_reg (G n) v s) (G m) = (if m = n \<and> n \<noteq> 0 then v else read_reg s (G m))"
  "read_reg (write_reg (G n) v s) (L m) = read_reg s (L m)"
  "read_reg (write_reg (G n) v s) (In m) = read_reg s (In m)"
  "read_reg (write_reg (G n) v s) (Out m) = read_reg s (Out m)"
  "read_reg (write_reg (L n) v s) (G m) = read_reg s (G m)"
  "read_reg (write_reg (L n) v s) (L m) = (if m = n then v else read_reg s (L m))"
  "read_reg (write_reg (L n) v s) (In m) = read_reg s (In m)"
  "read_reg (write_reg (L n) v s) (Out m) = read_reg s (Out m)"
  "read_reg (write_reg (In n) v s) (G m) = read_reg s (G m)"
  "read_reg (write_reg (In n) v s) (L m) = read_reg s (L m)"
  "read_reg (write_reg (In n) v s) (In m) = (if m = n then v else read_reg s (In m))"
  "read_reg (write_reg (In n) v s) (Out m) =
     (if m = n \<and> window_below s (cwp s) = cwp s then v else read_reg s (Out m))"
  "read_reg (write_reg (Out n) v s) (G m) = read_reg s (G m)"
  "read_reg (write_reg (Out n) v s) (L m) = read_reg s (L m)"
  "read_reg (write_reg (Out n) v s) (In m) =
     (if m = n \<and> window_below s (cwp s) = cwp s then v else read_reg s (In m))"
  "read_reg (write_reg (Out n) v s) (Out m) = (if m = n then v else read_reg s (Out m))"
  by (simp_all add: cwp_def window_below_def)

lemmas reg_defs = read_reg.simps write_reg.simps

lemma write_reg_g0 [simp]: "write_reg g0 v s = s"
  by simp

lemma read_reg_g0 [simp]: "read_reg s g0 = 0"
  by simp

declare read_reg.simps [simp del] write_reg.simps [simp del]

lemmas cc_defs = logic_cc_def sub_cc_def icc_logic_def icc_sub_def with_icc_def icc_z_def

lemmas instr_defs = i_mov_def alu_def i_and_def i_andn_def i_or_def i_xor_def i_add_def
  i_sub_def i_sll_def i_srl_def i_sethi_def i_st_def i_std_def i_ld_def i_ldd_def
  i_ld_sym_def i_st_sym_def i_rd_wim_def i_wr_wim_def i_rd_y_def i_wr_y_def i_wr_psr_def
  i_andcc_def i_orcc_def i_subcc_def i_tst_def

text \<open>Two 32-bit words are equal when their 32 bits are.\<close>

lemma u32_eqI:
  fixes a b :: u32
  assumes "\<forall>n \<in> set [0..<32]. bit a n = bit b n"
  shows "a = b"
proof (rule bit_word_eqI)
  fix n assume "n < LENGTH(32)"
  then have "n \<in> set [0..<32]" by simp
  with assms show "bit a n = bit b n" by blast
qed

lemma upt32:
  "[0..<32] = [0,1,2,3,4,5,6,7,8,9,10,11,12,13,14,15,16,17,18,19,20,21,22,23,24,25,26,27,28,29,30,31]"
  by (simp add: upt_rec)

text \<open>The condition codes leave the other fields of the PSR alone.\<close>

lemma with_icc_bits:
  "with_icc n z v c p AND 0x1f = p AND 0x1f"
  "with_icc n z v c p AND NOT 0xf00000 = p AND NOT 0xf00000"
  "drop_bit 8 (with_icc n z v c p) AND 0xf = drop_bit 8 p AND 0xf"
  unfolding with_icc_def
  by (rule u32_eqI; simp add: upt32 bit_simps)+

lemma with_icc_bit:
  "bit (with_icc n z v c p) 22 = z"
  "bit (with_icc n z v c p) 5 = bit p 5"
  "bit (with_icc n z v c p) 6 = bit p 6"
  "bit (with_icc n z v c p) 7 = bit p 7"
  unfolding with_icc_def
  by (simp_all add: bit_simps)

lemma icc_bits [simp]:
  "icc_logic r p AND 0x1f = p AND 0x1f"
  "icc_sub a b p AND 0x1f = p AND 0x1f"
  "bit (icc_logic r p) 22 = (r = 0)"
  "bit (icc_sub a b p) 22 = (a = b)"
  "bit (icc_logic r p) 5 = bit p 5"
  "bit (icc_sub a b p) 5 = bit p 5"
  "bit (icc_logic r p) 6 = bit p 6"
  "bit (icc_sub a b p) 6 = bit p 6"
  "bit (icc_logic r p) 7 = bit p 7"
  "bit (icc_sub a b p) 7 = bit p 7"
  "psr_pil (icc_logic r p) = psr_pil p"
  "psr_pil (icc_sub a b p) = psr_pil p"
  "psr_et (icc_logic r p) = psr_et p"
  "psr_et (icc_sub a b p) = psr_et p"
  by (simp_all add: icc_logic_def icc_sub_def with_icc_bits with_icc_bit psr_pil_def psr_et_def)

lemma icc_outside [simp]:
  "psr_but_icc (icc_logic r p) = psr_but_icc p"
  "psr_but_icc (icc_sub a b p) = psr_but_icc p"
  unfolding icc_logic_def icc_sub_def psr_but_icc_def
  by (rule with_icc_bits(2))+

lemma psr_but_icc_fields:
  assumes "psr_but_icc a = psr_but_icc b"
  shows "a AND 0x1f = b AND 0x1f" and "psr_pil a = psr_pil b" and "psr_et a = psr_et b"
proof -
  have b: "bit (a AND NOT 0xf00000) n = bit (b AND NOT 0xf00000) n" for n
    using assms by (simp add: psr_but_icc_def)
  from b [of 0] b [of 1] b [of 2] b [of 3] b [of 4] show "a AND 0x1f = b AND 0x1f"
    by - (rule u32_eqI, simp add: upt32 bit_simps)
  from b [of 8] b [of 9] b [of 10] b [of 11] show "psr_pil a = psr_pil b"
    unfolding psr_pil_def by - (rule u32_eqI, simp add: upt32 bit_simps)
  from b [of 5] show "psr_et a = psr_et b"
    by (simp add: psr_et_def bit_simps)
qed

lemma cc_fields [simp]:
  "psr (logic_cc r s) = icc_logic r (psr s)" "psr (sub_cc a b s) = icc_sub a b (psr s)"
  "globals (logic_cc r s) = globals s" "globals (sub_cc a b s) = globals s"
  "win_locals (logic_cc r s) = win_locals s" "win_locals (sub_cc a b s) = win_locals s"
  "win_ins (logic_cc r s) = win_ins s" "win_ins (sub_cc a b s) = win_ins s"
  "wim (logic_cc r s) = wim s" "wim (sub_cc a b s) = wim s"
  "yreg (logic_cc r s) = yreg s" "yreg (sub_cc a b s) = yreg s"
  "mem (logic_cc r s) = mem s" "mem (sub_cc a b s) = mem s"
  "vars (logic_cc r s) = vars s" "vars (sub_cc a b s) = vars s"
  "nwindows (logic_cc r s) = nwindows s" "nwindows (sub_cc a b s) = nwindows s"
  "pc (logic_cc r s) = pc s" "pc (sub_cc a b s) = pc s"
  "npc (logic_cc r s) = npc s" "npc (sub_cc a b s) = npc s"
  by (simp_all add: logic_cc_def sub_cc_def)

lemma cc_window [simp]:
  "cwp (logic_cc r s) = cwp s" "cwp (sub_cc a b s) = cwp s"
  "window_below (logic_cc r s) w = window_below s w"
  "window_below (sub_cc a b s) w = window_below s w"
  "window_above (logic_cc r s) w = window_above s w"
  "window_above (sub_cc a b s) w = window_above s w"
  by (simp_all add: cwp_def window_below_def window_above_def)

lemma read_reg_cc [simp]:
  "read_reg (logic_cc r s) x = read_reg s x" "read_reg (sub_cc a b s) x = read_reg s x"
  by (cases x; simp add: reg_defs)+

lemma icc_z_simps [simp]:
  "icc_z (logic_cc r s) = (r = 0)" "icc_z (sub_cc a b s) = (a = b)"
  "icc_z (write_reg x v s) = icc_z s"
  "icc_z (s\<lparr>mem := m\<rparr>) = icc_z s" "icc_z (s\<lparr>vars := vs\<rparr>) = icc_z s"
  "icc_z (s\<lparr>yreg := yv\<rparr>) = icc_z s" "icc_z (s\<lparr>wim := wv\<rparr>) = icc_z s"
  "icc_z (s\<lparr>psr := p\<rparr>) = bit p 22"
  by (simp_all add: icc_z_def)

section \<open>Properties of the interrupt mask controller\<close>

lemma irq_index_in_table: "(unat (irq - 1) < 15) = (1 \<le> irq \<and> irq \<le> (15 :: u32))"
proof (cases "irq = 0")
  case True
  then show ?thesis by (simp add: unat_eq_nat_uint uint_word_ariths)
next
  case False
  then have pos: "1 \<le> unat irq"
    by (simp add: Suc_le_eq unat_gt_0)
  from False have "unat (irq - 1) = unat irq - 1"
    by (rule unat_minus_one)
  moreover have "(1 \<le> irq) = (1 \<le> unat irq)"
    by (simp add: word_le_nat_alt)
  moreover have "(irq \<le> 15) = (unat irq \<le> 15)"
    by (simp add: word_le_nat_alt)
  ultimately show ?thesis using pos by auto
qed

text \<open>
  C8. Whatever the three masks hold: enabling all interrupts ORs the union of the two
  class masks into the current mask, disabling all ANDs it with the complement of that
  union, the two ISR2 operations do the same with the ISR2 mask alone, and none of the
  four changes a class mask.
\<close>

theorem C8_mask_operations:
  "sparcCurrentInterruptMask (sparcEnableAllInterrupts s) =
     sparcCurrentInterruptMask s OR (sparcISR1HandlersMask s OR sparcISR2HandlersMask s)
   \<and> sparcCurrentInterruptMask (sparcDisableAllInterrupts s) =
     sparcCurrentInterruptMask s AND NOT (sparcISR1HandlersMask s OR sparcISR2HandlersMask s)
   \<and> sparcCurrentInterruptMask (sparcEnableISR2Interrupts s) =
     sparcCurrentInterruptMask s OR sparcISR2HandlersMask s
   \<and> sparcCurrentInterruptMask (sparcDisableISR2Interrupts s) =
     sparcCurrentInterruptMask s AND NOT (sparcISR2HandlersMask s)
   \<and> sparcISR1HandlersMask (sparcEnableAllInterrupts s) = sparcISR1HandlersMask s
   \<and> sparcISR2HandlersMask (sparcEnableAllInterrupts s) = sparcISR2HandlersMask s
   \<and> sparcISR1HandlersMask (sparcDisableAllInterrupts s) = sparcISR1HandlersMask s
   \<and> sparcISR2HandlersMask (sparcDisableAllInterrupts s) = sparcISR2HandlersMask s
   \<and> sparcISR1HandlersMask (sparcEnableISR2Interrupts s) = sparcISR1HandlersMask s
   \<and> sparcISR2HandlersMask (sparcEnableISR2Interrupts s) = sparcISR2HandlersMask s
   \<and> sparcISR1HandlersMask (sparcDisableISR2Interrupts s) = sparcISR1HandlersMask s
   \<and> sparcISR2HandlersMask (sparcDisableISR2Interrupts s) = sparcISR2HandlersMask s"
  by (simp add: sparcEnableAllInterrupts_def sparcDisableAllInterrupts_def
      sparcEnableISR2Interrupts_def sparcDisableISR2Interrupts_def grRegisterWrite_def)

text \<open>
  C9. With the table at its declared size of 15 entries, a registration call of either
  class writes inside the table exactly when \<open>1 \<le> irq \<le> 15\<close>: for those numbers it
  returns the updated state, whose table differs at index \<open>irq - 1\<close> only, and for
  \<open>irq = 0\<close> or \<open>irq > 15\<close> it runs into the access outside the array.
\<close>

theorem C9_table_write_in_bounds:
  assumes "length (sparcIRQHandlersTable s) = 15"
  shows "(sparcRegisterISR1Handler h irq s = Inl IndexOutOfBounds) = (irq = 0 \<or> 15 < irq)
       \<and> (sparcRegisterISR2Handler h irq s = Inl IndexOutOfBounds) = (irq = 0 \<or> 15 < irq)
       \<and> (1 \<le> irq \<and> irq \<le> 15 \<longrightarrow>
            (\<exists>s1 s2. sparcRegisterISR1Handler h irq s = Inr s1
               \<and> sparcRegisterISR2Handler h irq s = Inr s2
               \<and> sparcIRQHandlersTable s1 = (sparcIRQHandlersTable s)[unat irq - 1 := h]
               \<and> sparcIRQHandlersTable s2 = (sparcIRQHandlersTable s)[unat irq - 1 := h]
               \<and> length (sparcIRQHandlersTable s1) = 15
               \<and> length (sparcIRQHandlersTable s2) = 15))"
proof -
  have idx: "(unat (irq - 1) < 15) = (1 \<le> irq \<and> irq \<le> 15)"
    by (rule irq_index_in_table)
  have neg: "(\<not> (1 \<le> irq \<and> irq \<le> 15)) = (irq = 0 \<or> 15 < irq)"
    by (auto simp: word_le_nat_alt word_less_nat_alt unat_eq_0 not_le Suc_le_eq unat_gt_0)
  have sub: "1 \<le> irq \<Longrightarrow> unat (irq - 1) = unat irq - 1"
    by (simp add: unat_sub word_le_nat_alt)
  show ?thesis
    using assms idx neg sub
    by (auto simp: sparcRegisterISR1Handler_def sparcRegisterISR2Handler_def table_store_def
        grRegisterWrite_def Let_def)
qed

theorem C9_table_write_in_bounds_witness:
  "length (sparcIRQHandlersTable irq_initial) = 15
   \<and> sparcRegisterISR1Handler 7 0 irq_initial = Inl IndexOutOfBounds
   \<and> sparcRegisterISR2Handler 7 16 irq_initial = Inl IndexOutOfBounds
   \<and> (1 :: u32) \<le> 15 \<and> (15 :: u32) \<le> 15
   \<and> (\<exists>s1 s2. sparcRegisterISR1Handler 7 15 irq_initial = Inr s1
         \<and> sparcRegisterISR2Handler 7 15 irq_initial = Inr s2
         \<and> sparcIRQHandlersTable s1 = (replicate 14 0) @ [7]
         \<and> sparcIRQHandlersTable s2 = (replicate 14 0) @ [7])"
proof -
  have len: "length (sparcIRQHandlersTable irq_initial) = 15"
    by (simp add: irq_initial_def)
  have "unat (15 :: u32) - 1 = 14"
    by simp
  then have tbl: "(sparcIRQHandlersTable irq_initial)[unat (15 :: u32) - 1 := 7] = (replicate 14 0) @ [7]"
    by (simp add: irq_initial_def) code_simp
  show ?thesis
    using len tbl C9_table_write_in_bounds [OF len, of 7 0] C9_table_write_in_bounds [OF len, of 7 16]
      C9_table_write_in_bounds [OF len, of 7 15]
    by auto
qed

section \<open>Properties of the trap handler: entry, call and return from the call\<close>

text \<open>The PSR values the routine writes around the call, field by field.\<close>

lemma psr_value_raised:
  fixes a b :: u32
  shows "(((a AND NOT 0xf00) OR push_bit 8 (b AND 0xf)) OR 0x20) AND 0x1f = a AND 0x1f"
    and "((a AND NOT 0xf00) OR push_bit 8 (b AND 0xf)) AND 0x1f = a AND 0x1f"
    and "psr_pil ((a AND NOT 0xf00) OR push_bit 8 (b AND 0xf)) = b AND 0xf"
    and "(a OR 0x20) AND 0x1f = a AND 0x1f"
    and "psr_pil (a OR 0x20) = psr_pil a"
  unfolding psr_pil_def
  by (rule u32_eqI, simp add: upt32 bit_simps)+

lemmas psr_value_raised_simps = psr_value_raised [simplified]

lemma low_bits_le_15:
  fixes b :: u32
  assumes "b AND 0x1f \<le> 15"
  shows "b AND 0xf = b AND 0x1f"
proof -
  from assms have "unat (b AND 0x1f) < 16"
    by (simp add: word_le_nat_alt)
  then have "drop_bit 4 (unat (b AND 0x1f)) = 0"
    by (simp add: drop_bit_eq_div)
  then have "\<not> bit (unat (b AND 0x1f)) 4"
    by (simp add: bit_iff_odd_drop_bit)
  then have "\<not> bit (b AND 0x1f) 4"
    by (simp add: bit_unsigned_iff)
  then have "\<not> bit b 4"
    by (simp add: bit_simps)
  then show ?thesis
    by - (rule u32_eqI, simp add: upt32 bit_simps)
qed

lemma call_handler_caller_before_call:
  "call_handler_caller cfg ext s =
     do { s' \<leftarrow> before_call cfg s;
          if read_reg s l3 AND 0x20 = 0 then sparcInterruptHandlerCaller ext s'
          else sparcTaskContextReplacementHandlerCaller ext s' }"
  by (simp add: call_handler_caller_def before_call_def i_andcc_def)

lemma before_call_interrupt:
  assumes "psr_masks_v8 cfg" and "psr_but_icc (read_reg s l0) = psr_but_icc (psr s)"
    and "read_reg s l3 AND 0x20 = 0"
  shows "\<exists>s'. before_call cfg s = Some s' \<and> read_reg s' o0 = read_reg s l3 AND 0x1f
           \<and> psr_pil (psr s') = read_reg s l3 AND 0xf \<and> read_reg s' l0 = read_reg s l0
           \<and> cwp s' = cwp s \<and> mem s' = mem s \<and> vars s' = vars s"
  using assms(1,3) psr_but_icc_fields(1) [OF assms(2)]
  by (simp add: before_call_def set_interrupt_handler_caller_address_def instr_defs
      psr_masks_v8_def psr_value_raised_simps reg_defs cwp_def window_below_def)

lemma before_call_replacement:
  assumes "psr_masks_v8 cfg" and "psr_but_icc (read_reg s l0) = psr_but_icc (psr s)"
    and "read_reg s l3 AND 0x20 \<noteq> 0"
  shows "\<exists>s'. before_call cfg s = Some s' \<and> read_reg s' o0 = read_reg s l3 AND 0x1f
           \<and> psr_pil (psr s') = psr_pil (psr s) \<and> read_reg s' l0 = read_reg s l0
           \<and> cwp s' = cwp s \<and> mem s' = mem s \<and> vars s' = vars s"
proof -
  have "\<exists>s'. before_call cfg s = Some s' \<and> read_reg s' o0 = read_reg s l3 AND 0x1f
           \<and> psr_pil (psr s') = psr_pil (read_reg s l0) \<and> read_reg s' l0 = read_reg s l0
           \<and> cwp s' = cwp s \<and> mem s' = mem s \<and> vars s' = vars s"
    using assms(1,3) psr_but_icc_fields(1) [OF assms(2)]
    by (simp add: before_call_def set_task_context_replacement_handler_address_def instr_defs
        psr_masks_v8_def psr_value_raised_simps reg_defs cwp_def window_below_def)
  with psr_but_icc_fields(2) [OF assms(2)] show ?thesis
    by simp
qed



lemmas example_defs = example_machine_def example_config_def at_entry_def reg_defs cwp_def
  window_below_def window_above_def

text \<open>
  C6. The entry code leaves in \<open>(%l1, %l2)\<close> the delivered pair \<open>(PC, nPC)\<close> when bit 5
  of the index in \<open>%l3\<close> is clear, and \<open>(nPC, nPC + 4)\<close> when it is set. So an
  interrupt delivered at \<open>(r, r + 4)\<close> and a software trap whose nPC is \<open>r\<close> leave the
  same pair \<open>(r, r + 4)\<close>.
\<close>

theorem C6_unified_return_address:
  "(\<exists>s'. unify_return_address s = Some s'
      \<and> read_reg s' l1 = (if read_reg s l3 AND 0x20 = 0 then read_reg s l1 else read_reg s l2)
      \<and> read_reg s' l2 = (if read_reg s l3 AND 0x20 = 0 then read_reg s l2 else read_reg s l2 + 4))
   \<and> (read_reg si l3 AND 0x20 = 0 \<and> read_reg si l1 = r \<and> read_reg si l2 = r + 4
        \<and> read_reg st l3 AND 0x20 \<noteq> 0 \<and> read_reg st l2 = r \<longrightarrow>
      (\<exists>si' st'. unify_return_address si = Some si' \<and> unify_return_address st = Some st'
         \<and> read_reg si' l1 = r \<and> read_reg si' l2 = r + 4
         \<and> read_reg st' l1 = r \<and> read_reg st' l2 = r + 4))"
  by (simp add: unify_return_address_def software_trap_return_def instr_defs)

text \<open>
  An interrupt at \<open>0x40000200\<close> and a software trap issued at \<open>0x400001FC\<close> both leave
  \<open>(0x40000200, 0x40000204)\<close>.
\<close>

theorem C6_unified_return_address_witness:
  "read_reg (at_entry 0x03 0x40000200 0x40000204 example_machine) l3 AND 0x20 = 0
   \<and> read_reg (at_entry 0x21 0x400001FC 0x40000200 example_machine) l3 AND 0x20 \<noteq> 0
   \<and> (\<exists>si' st'. unify_return_address (at_entry 0x03 0x40000200 0x40000204 example_machine) = Some si'
         \<and> unify_return_address (at_entry 0x21 0x400001FC 0x40000200 example_machine) = Some st'
         \<and> read_reg si' l1 = 0x40000200 \<and> read_reg si' l2 = 0x40000204
         \<and> read_reg st' l1 = 0x40000200 \<and> read_reg st' l2 = 0x40000204)"
  using C6_unified_return_address [of "at_entry 0x03 0x40000200 0x40000204 example_machine"
      "at_entry 0x03 0x40000200 0x40000204 example_machine" "0x40000200"
      "at_entry 0x21 0x400001FC 0x40000200 example_machine"]
  by (simp add: at_entry_def)

text \<open>
  C5, as stated, fails for an index of kind Interrupt whose five-bit argument is above
  15: with index \<open>0x10\<close> the callee gets the argument 16 while the PIL is 0.
\<close>

theorem C5_priority_counterexample:
  "read_reg (at_entry 0x10 0x40000200 0x40000204 example_machine) l3 AND 0x20 = 0
   \<and> before_call example_config (at_entry 0x10 0x40000200 0x40000204 example_machine) \<noteq> None
   \<and> \<not> read_reg (the (before_call example_config (at_entry 0x10 0x40000200 0x40000204 example_machine))) o0
        \<le> psr_pil (psr (the (before_call example_config (at_entry 0x10 0x40000200 0x40000204 example_machine))))"
  by (simp add: before_call_def set_interrupt_handler_caller_address_def instr_defs cc_defs
      example_defs psr_pil_def)

text \<open>
  C5, amended. With \<open>%l0\<close> holding the PSR of the trap entry, from which the PSR
  differs at most in the condition codes that the tests of the routine have written, the
  callee starts with the low five bits of the index in \<open>%o0\<close>. For the kind Interrupt the callee is
  \<open>sparcInterruptHandlerCaller\<close> and the PIL is the low four bits of the index, which is
  the argument itself whenever the argument is at most 15. For the kind
  ContextReplacement the callee is \<open>sparcTaskContextReplacementHandlerCaller\<close> and the
  PIL is the one of the trap entry.
\<close>

theorem C5_priority_at_call:
  assumes "psr_masks_v8 cfg" and "psr_but_icc (read_reg s l0) = psr_but_icc (psr s)"
  shows "\<exists>s'. before_call cfg s = Some s'
           \<and> call_handler_caller cfg ext s =
               (if read_reg s l3 AND 0x20 = 0 then sparcInterruptHandlerCaller ext s'
                else sparcTaskContextReplacementHandlerCaller ext s')
           \<and> read_reg s' o0 = read_reg s l3 AND 0x1f
           \<and> (if read_reg s l3 AND 0x20 = 0
              then psr_pil (psr s') = read_reg s l3 AND 0xf
                 \<and> (read_reg s' o0 \<le> 15 \<longrightarrow> psr_pil (psr s') = read_reg s' o0)
              else psr_pil (psr s') = psr_pil (psr s))"
proof (cases "read_reg s l3 AND 0x20 = 0")
  case True
  with before_call_interrupt [OF assms True] low_bits_le_15 [of "read_reg s l3"] show ?thesis
    by (auto simp: call_handler_caller_before_call)
next
  case False
  with before_call_replacement [OF assms False] show ?thesis
    by (auto simp: call_handler_caller_before_call)
qed

text \<open>Interrupt 5 is handled at PIL 5.\<close>

theorem C5_priority_at_call_witness:
  "psr_masks_v8 example_config
   \<and> psr_but_icc (read_reg (at_entry 0x05 0x40000200 0x40000204 example_machine) l0)
       = psr_but_icc (psr (at_entry 0x05 0x40000200 0x40000204 example_machine))
   \<and> read_reg (at_entry 0x05 0x40000200 0x40000204 example_machine) l3 AND 0x20 = 0
   \<and> (\<exists>s'. before_call example_config (at_entry 0x05 0x40000200 0x40000204 example_machine) = Some s'
         \<and> read_reg s' o0 = 5 \<and> read_reg s' o0 \<le> 15 \<and> psr_pil (psr s') = 5)"
proof -
  have m: "psr_masks_v8 example_config"
    by (simp add: psr_masks_v8_def example_config_def)
  have e: "psr_but_icc (read_reg (at_entry 0x05 0x40000200 0x40000204 example_machine) l0)
             = psr_but_icc (psr (at_entry 0x05 0x40000200 0x40000204 example_machine))"
    by (simp add: at_entry_def)
  have k: "read_reg (at_entry 0x05 0x40000200 0x40000204 example_machine) l3 = 5"
    by (simp add: at_entry_def)
  show ?thesis
    using m e k C5_priority_at_call [OF m e, of example_callers]
    by auto
qed

text \<open>
  C7. On both paths the call is followed by \<open>mov %l0, %psr\<close>. With \<open>%l0\<close> holding the
  PSR of the trap entry, where traps are disabled and from which the PSR before the call
  differs at most in the condition codes, and callees that return with \<open>%l0\<close> of the
  trap window as they found it, the PSR after that instruction is \<open>%l0\<close>, the one of the
  trap entry, for either kind of index: ET is 0 and the PIL is the one before the trap.
\<close>

theorem C7_traps_disabled_after_call:
  assumes "psr_masks_v8 cfg" and "psr_but_icc (read_reg s l0) = psr_but_icc (psr s)"
    and "\<not> psr_et (psr s)"
    and "\<forall>x y. sparcInterruptHandlerCaller ext x = Some y \<longrightarrow> read_reg y l0 = read_reg x l0"
    and "\<forall>x y. sparcTaskContextReplacementHandlerCaller ext x = Some y \<longrightarrow> read_reg y l0 = read_reg x l0"
    and "call_handler_caller cfg ext s = Some t"
  shows "\<exists>t'. exec disable_traps t = Some t' \<and> psr t' = read_reg s l0
           \<and> psr_but_icc (psr t') = psr_but_icc (psr s) \<and> \<not> psr_et (psr t')
           \<and> psr_pil (psr t') = psr_pil (psr s)"
proof -
  have "\<exists>s'. before_call cfg s = Some s' \<and> read_reg s' l0 = read_reg s l0"
    using before_call_interrupt [OF assms(1,2)] before_call_replacement [OF assms(1,2)]
    by (cases "read_reg s l3 AND 0x20 = 0") blast+
  then obtain s' where s': "before_call cfg s = Some s'" "read_reg s' l0 = read_reg s l0"
    by blast
  with assms(4,5,6) have "read_reg t l0 = read_reg s l0"
    by (auto simp: call_handler_caller_before_call split: if_splits)
  with assms(2,3) psr_but_icc_fields(2,3) [OF assms(2)] show ?thesis
    by (simp add: disable_traps_def instr_defs)
qed


text \<open>
  Interrupt 5, entered at PIL 2 with PSR \<open>0x2C3\<close>, at the call with Z set by the test
  before it: the callee runs at PIL 5 with traps enabled, and the PSR is \<open>0x2C3\<close> again
  after the call.
\<close>

theorem C7_traps_disabled_after_call_witness:
  "psr_masks_v8 example_config
   \<and> psr_but_icc (read_reg call_example l0) = psr_but_icc (psr call_example)
   \<and> psr call_example = 0x004002C3
   \<and> \<not> psr_et (psr call_example)
   \<and> (\<exists>t t'. call_handler_caller example_config example_callers call_example = Some t
         \<and> psr_pil (psr t) = 5 \<and> psr_et (psr t)
         \<and> exec disable_traps t = Some t' \<and> psr t' = 0x2C3 \<and> \<not> psr_et (psr t')
         \<and> psr_pil (psr t') = 2)"
proof -
  let ?s = call_example
  have m: "psr_masks_v8 example_config"
    by (simp add: psr_masks_v8_def example_config_def)
  have e: "psr_but_icc (read_reg ?s l0) = psr_but_icc (psr ?s)"
    by (simp add: call_example_def example_defs psr_but_icc_def)
  have et: "\<not> psr_et (psr ?s)"
    by (simp add: call_example_def psr_et_def)
  have i: "\<forall>x y. sparcInterruptHandlerCaller example_callers x = Some y \<longrightarrow> read_reg y l0 = read_reg x l0"
    by (auto simp: example_callers_def)
  have r: "\<forall>x y. sparcTaskContextReplacementHandlerCaller example_callers x = Some y
             \<longrightarrow> read_reg y l0 = read_reg x l0"
    by (auto simp: example_callers_def)
  have c: "\<exists>t. call_handler_caller example_config example_callers ?s = Some t
             \<and> psr_pil (psr t) = 5 \<and> psr_et (psr t)"
    by (simp add: call_handler_caller_def set_interrupt_handler_caller_address_def
        instr_defs cc_defs call_example_def example_defs example_callers_def psr_pil_def psr_et_def)
  then obtain t where t: "call_handler_caller example_config example_callers ?s = Some t"
      "psr_pil (psr t) = 5" "psr_et (psr t)"
    by blast
  have p: "read_reg ?s l0 = 0x2C3" "psr_pil (psr ?s) = 2" "psr ?s = 0x004002C3"
    by (simp_all add: call_example_def example_defs psr_pil_def)
  show ?thesis
    using m e et t p C7_traps_disabled_after_call [OF m e et i r t(1)]
    by auto
qed

section \<open>Properties of the trap handler: saving a context\<close>

lemma load32_store32_same [simp]: "load32 (store32 a v m) a = v"
  unfolding load32_def store32_def
  by (rule u32_eqI) (simp add: upt32 bit_simps)

lemma not_le_one [simp]: "\<not> 4 \<le> (1 :: u32)" "\<not> 76 \<le> (1 :: u32)" "\<not> 64 \<le> (1 :: u32)"
  by (simp_all add: word_le_nat_alt)

lemma load32_store32_other [simp]:
  "4 \<le> b - a \<Longrightarrow> 4 \<le> a - b \<Longrightarrow> load32 (store32 a v m) b = load32 m b"
  by (auto simp: store32_def load32_def)

lemma hi_or_lo [simp]: "hi v OR lo v = v"
  unfolding hi_def lo_def
  by (rule u32_eqI) (simp add: upt32 bit_simps)

lemma outermost_regular_context_saved:
  "\<exists>s'. exec outermost_regular_context s = Some s'
     \<and> context_at (mem s') (read_reg s g4) = relocated_context s
     \<and> vars s' = vars s"
  by (simp add: outermost_regular_context_def instr_defs context_at_def relocated_context_def
      register_context_def)

lemma outermost_regular_context_frame:
  "\<exists>s'. exec outermost_regular_context s = Some s'
     \<and> (\<forall>x. 76 \<le> x - read_reg s g4 \<longrightarrow> mem s' x = mem s x)"
  by (auto simp add: outermost_regular_context_def instr_defs store32_def)

lemma outermost_save_destination:
  "\<exists>s2. outermost_select_context cfg s = Some s2
     \<and> read_reg s2 g4 =
          (if frozen_flag (mem s) (vars s active_thread_context_stack_pointer) = 0
           then vars s active_thread_context_stack_pointer else sparcNullTaskContextData cfg)
     \<and> vars s2 = (vars s)(active_thread_context_stack_pointer := read_reg s2 g4)
     \<and> mem s2 = mem s
     \<and> relocated_context s2 = relocated_context s"
  by (auto simp add: outermost_select_context_def outermost_save_context_def
      outermost_null_task_context_def instr_defs frozen_flag_def relocated_context_def
      register_context_def)

lemma outermost_save_result:
  "\<exists>s'. outermost_save cfg s = Some s'
     \<and> vars s' = (vars s)(active_thread_context_stack_pointer :=
          (if frozen_flag (mem s) (vars s active_thread_context_stack_pointer) = 0
           then vars s active_thread_context_stack_pointer else sparcNullTaskContextData cfg))
     \<and> context_at (mem s') (vars s' active_thread_context_stack_pointer) = relocated_context s
     \<and> (\<forall>x. 76 \<le> x - vars s' active_thread_context_stack_pointer \<longrightarrow> mem s' x = mem s x)"
proof -
  obtain s2 where s2: "outermost_select_context cfg s = Some s2"
     "read_reg s2 g4 =
          (if frozen_flag (mem s) (vars s active_thread_context_stack_pointer) = 0
           then vars s active_thread_context_stack_pointer else sparcNullTaskContextData cfg)"
     "vars s2 = (vars s)(active_thread_context_stack_pointer := read_reg s2 g4)"
     "mem s2 = mem s" "relocated_context s2 = relocated_context s"
    using outermost_save_destination [of cfg s] by blast
  obtain s' where s': "exec outermost_regular_context s2 = Some s'"
     "context_at (mem s') (read_reg s2 g4) = relocated_context s2" "vars s' = vars s2"
    using outermost_regular_context_saved [of s2] by blast
  from outermost_regular_context_frame [of s2] s'(1)
  have fr: "\<forall>x. 76 \<le> x - read_reg s2 g4 \<longrightarrow> mem s' x = mem s2 x"
    by simp
  have "outermost_save cfg s = Some s'"
    using s2(1) s'(1) by (simp add: outermost_save_def)
  with s2 s' fr show ?thesis
    by simp
qed


lemma bytes_apart:
  fixes a n :: u32
  assumes "\<forall>i<80. \<forall>j<80. a + of_nat i \<noteq> n + of_nat j" and "i < 80"
  shows "76 \<le> a + of_nat i - n"
proof (rule ccontr)
  assume "\<not> 76 \<le> a + of_nat i - n"
  then have lt: "unat (a + of_nat i - n) < 76"
    by (simp add: word_le_nat_alt)
  have "a + of_nat i = n + of_nat (unat (a + of_nat i - n))"
    by simp
  moreover from lt have "unat (a + of_nat i - n) < 80"
    by simp
  ultimately show False
    using assms by blast
qed





text \<open>
  C1. When the frozen flag of the context that \<open>active_thread_context_stack_pointer\<close>
  designates is not zero, and that record shares no byte with the null context, the save
  step of the outermost path leaves each of the 80 bytes of the record as it was, writes
  the context of the interrupted task into \<open>sparcNullTaskContextData\<close> and makes the
  pointer designate \<open>sparcNullTaskContextData\<close>.
\<close>

theorem C1_frozen_redirect:
  assumes "frozen_flag (mem s) (vars s active_thread_context_stack_pointer) \<noteq> 0"
    and "\<forall>i<80. \<forall>j<80. vars s active_thread_context_stack_pointer + of_nat i
                          \<noteq> sparcNullTaskContextData cfg + of_nat j"
  shows "\<exists>s'. outermost_save cfg s = Some s'
           \<and> (\<forall>i<80. mem s' (vars s active_thread_context_stack_pointer + of_nat i)
                      = mem s (vars s active_thread_context_stack_pointer + of_nat i))
           \<and> context_at (mem s') (sparcNullTaskContextData cfg) = relocated_context s
           \<and> vars s' active_thread_context_stack_pointer = sparcNullTaskContextData cfg"
proof -
  obtain s' where s': "outermost_save cfg s = Some s'"
    "vars s' = (vars s)(active_thread_context_stack_pointer :=
          (if frozen_flag (mem s) (vars s active_thread_context_stack_pointer) = 0
           then vars s active_thread_context_stack_pointer else sparcNullTaskContextData cfg))"
    "context_at (mem s') (vars s' active_thread_context_stack_pointer) = relocated_context s"
    "\<forall>x. 76 \<le> x - vars s' active_thread_context_stack_pointer \<longrightarrow> mem s' x = mem s x"
    using outermost_save_result [of cfg s] by blast
  from s'(2) assms(1) have n: "vars s' active_thread_context_stack_pointer = sparcNullTaskContextData cfg"
    by simp
  have "\<forall>i<80. mem s' (vars s active_thread_context_stack_pointer + of_nat i)
                      = mem s (vars s active_thread_context_stack_pointer + of_nat i)"
    using bytes_apart [OF assms(2)] s'(4) n by simp
  with s'(1,3) n show ?thesis
    by simp
qed


lemma example_records_apart:
  "\<forall>i<80. \<forall>j<80. (0x40003000 :: u32) + of_nat i \<noteq> 0x40002000 + of_nat j"
proof (intro allI impI)
  fix i j :: nat assume i: "i < 80" and j: "j < 80"
  have a: "unat ((0x40003000 :: u32) + of_nat i) = 0x40003000 + i"
    using i by (simp add: unat_word_ariths unat_of_nat)
  have b: "unat ((0x40002000 :: u32) + of_nat j) = 0x40002000 + j"
    using j by (simp add: unat_word_ariths unat_of_nat)
  show "(0x40003000 :: u32) + of_nat i \<noteq> 0x40002000 + of_nat j"
  proof
    assume "(0x40003000 :: u32) + of_nat i = 0x40002000 + of_nat j"
    then have "unat ((0x40003000 :: u32) + of_nat i) = unat ((0x40002000 :: u32) + of_nat j)"
      by (rule arg_cong)
    then have "(0x40003000 :: nat) + i = 0x40002000 + j"
      unfolding a b .
    with j show False
      by linarith
  qed
qed

text \<open>
  With the frozen flag of the context at \<open>0x40003000\<close> set, the last byte of that flag is
  still 1 after the save, the null context at \<open>0x40002000\<close> holds the PSR and the PC of
  the interrupted task, and the pointer designates the null context.
\<close>

theorem C1_frozen_redirect_witness:
  "frozen_flag (mem frozen_example) (vars frozen_example active_thread_context_stack_pointer) \<noteq> 0
   \<and> (\<exists>s'. outermost_save example_config frozen_example = Some s'
         \<and> mem s' 0x4000304F = 1
         \<and> context_psr (context_at (mem s') 0x40002000) = 0x2C3
         \<and> context_pc (context_at (mem s') 0x40002000) = 0x40000200
         \<and> vars s' active_thread_context_stack_pointer = 0x40002000)"
proof -
  have a: "vars frozen_example active_thread_context_stack_pointer = 0x40003000"
    by (simp add: frozen_example_def at_entry_def example_machine_def)
  have n: "sparcNullTaskContextData example_config = 0x40002000"
    by (simp add: example_config_def)
  have f: "frozen_flag (mem frozen_example) (vars frozen_example active_thread_context_stack_pointer) \<noteq> 0"
    by (simp add: a) (simp add: frozen_flag_def frozen_example_def)
  have d: "\<forall>i<80. \<forall>j<80. vars frozen_example active_thread_context_stack_pointer + of_nat i
                          \<noteq> sparcNullTaskContextData example_config + of_nat j"
    using example_records_apart by (simp add: a n)
  have b: "mem frozen_example (0x40003000 + of_nat 79) = 1"
    by (simp add: frozen_example_def store32_def)
  have r: "context_psr (relocated_context frozen_example) = 0x2C3"
    "context_pc (relocated_context frozen_example) = 0x40000200"
    by (simp_all add: relocated_context_def register_context_def frozen_example_def at_entry_def
        example_machine_def)
  from C1_frozen_redirect [OF f d] obtain s' where s':
    "outermost_save example_config frozen_example = Some s'"
    "\<forall>i<80. mem s' (vars frozen_example active_thread_context_stack_pointer + of_nat i)
                      = mem frozen_example (vars frozen_example active_thread_context_stack_pointer + of_nat i)"
    "context_at (mem s') (sparcNullTaskContextData example_config) = relocated_context frozen_example"
    "vars s' active_thread_context_stack_pointer = sparcNullTaskContextData example_config"
    by blast
  from s'(2) have "mem s' (0x40003000 + of_nat 79) = mem frozen_example (0x40003000 + of_nat 79)"
    unfolding a by (rule allE [where x = 79]) simp
  with b have "mem s' 0x4000304F = 1"
    by simp
  with f s'(1,3,4) r n show ?thesis
    by simp
qed



section \<open>Properties of the trap handler: restoring a context\<close>






lemma disable_traps_result:
  assumes "unat (read_reg t0 l0 AND 0x1f) = cwp t0"
  shows "\<exists>t1 t2 t3 t4. exec disable_traps t0 = Some t1
           \<and> exec (outermost_release_frame cfg) t1 = Some t2
           \<and> exec (outermost_clear_flag cfg) t2 = Some t3
           \<and> exec (outermost_load_context_pointer cfg) t3 = Some t4
           \<and> psr t4 = read_reg t0 l0 \<and> read_reg t4 l0 = psr t4
           \<and> read_reg t4 sp = vars t0 active_thread_context_stack_pointer
           \<and> mem t4 = mem t0 \<and> cwp t4 = cwp t0"
  using assms
  by (simp add: disable_traps_def outermost_release_frame_def outermost_clear_flag_def
      outermost_load_context_pointer_def instr_defs)






section \<open>Properties of the trap handler: a free window for a nested trap\<close>

lemma unat_low5:
  assumes "k < 32"
  shows "unat ((of_nat k :: u32) AND 0x1f) = k"
proof -
  have "(of_nat k :: u32) AND 0x1f = take_bit 5 (of_nat k)"
    by (simp add: take_bit_eq_mask mask_eq_exp_minus_1)
  then have "unat ((of_nat k :: u32) AND 0x1f) = take_bit 5 (unat (of_nat k :: u32))"
    by (simp only: unsigned_take_bit_eq)
  also have "\<dots> = take_bit 5 k"
    using assms by (simp add: unat_of_nat)
  also have "\<dots> = k"
    using assms by (simp add: take_bit_nat_eq_self)
  finally show ?thesis .
qed



lemma cwp_field_replace:
  fixes p b :: u32
  shows "((p AND NOT 0x1f) OR (b AND 0x1f)) AND 0x1f = b AND 0x1f"
    and "(((p AND NOT 0x1f) OR (b AND 0x1f)) AND NOT 0x1f) OR (p AND 0x1f) = p"
  by (rule u32_eqI, simp add: upt32 bit_simps)+

lemma cwp_set_cwp: "w < 32 \<Longrightarrow> cwp (set_cwp w s) = w"
  using cwp_field_replace(1) [of "psr s" "of_nat w"] unat_low5 [of w]
  by (simp add: cwp_def set_cwp_def)

lemma bit_one_hot: "bit (push_bit c (1 :: u32)) w = (w = c \<and> c < 32)"
  by (auto simp: bit_simps)




lemma set_cwp_fields [simp]:
  "mem (set_cwp w s) = mem s" "wim (set_cwp w s) = wim s" "yreg (set_cwp w s) = yreg s"
  "vars (set_cwp w s) = vars s" "nwindows (set_cwp w s) = nwindows s"
  "globals (set_cwp w s) = globals s" "win_locals (set_cwp w s) = win_locals s"
  "win_ins (set_cwp w s) = win_ins s" "pc (set_cwp w s) = pc s" "npc (set_cwp w s) = npc s"
  "window_below (set_cwp w s) x = window_below s x"
  "window_above (set_cwp w s) x = window_above s x"
  by (simp_all add: set_cwp_def window_below_def window_above_def)

lemma of_nat_unat_u32: "(of_nat (unat (w :: u32)) :: u32) = w"
  by simp

lemma psr_restored:
  fixes p b :: u32
  shows "(((p AND NOT 0x1f) OR (b AND 0x1f)) AND NOT 0x1f) OR (of_nat (unat (p AND 0x1f)) AND 0x1f) = p"
  unfolding of_nat_unat_u32
  by (rule u32_eqI, simp add: upt32 bit_simps)


lemma read_reg_set_cwp [simp]:
  "read_reg (set_cwp w s) (G n) = read_reg s (G n)"
  "w < 32 \<Longrightarrow> read_reg (set_cwp w s) (L n) = win_locals s w n"
  "w < 32 \<Longrightarrow> read_reg (set_cwp w s) (In n) = win_ins s w n"
  "w < 32 \<Longrightarrow> read_reg (set_cwp w s) (Out n) = win_ins s (window_below s w) n"
  by (simp_all add: reg_defs cwp_set_cwp)

lemma write_reg_registers [simp]:
  "globals (write_reg (G n) v s) = (if n = 0 then globals s else (globals s)(n := v))"
  "globals (write_reg (L n) v s) = globals s"
  "globals (write_reg (In n) v s) = globals s"
  "globals (write_reg (Out n) v s) = globals s"
  "win_locals (write_reg (G n) v s) = win_locals s"
  "win_locals (write_reg (L n) v s) = (win_locals s)(cwp s := (win_locals s (cwp s))(n := v))"
  "win_locals (write_reg (In n) v s) = win_locals s"
  "win_locals (write_reg (Out n) v s) = win_locals s"
  "win_ins (write_reg (G n) v s) = win_ins s"
  "win_ins (write_reg (L n) v s) = win_ins s"
  "win_ins (write_reg (In n) v s) = (win_ins s)(cwp s := (win_ins s (cwp s))(n := v))"
  "win_ins (write_reg (Out n) v s) =
     (win_ins s)(window_below s (cwp s) := (win_ins s (window_below s (cwp s)))(n := v))"
  by (simp_all add: reg_defs)






end
